theory Spec2Isabelle
  imports Main
begin

section \<open>Data model (internal/models)\<close>

text \<open>
  Go strings are byte sequences and are modelled by \<^typ>\<open>string\<close>. The unsigned
  identifiers (\<^verbatim>\<open>uint\<close>) are natural numbers; the one place where their width
  matters, the conversion \<^verbatim>\<open>rune(ID)\<close>, writes the truncation out. Times
  (\<^verbatim>\<open>time.Time\<close>, \<^verbatim>\<open>time.Duration\<close>) are integers counting nanoseconds, the
  millisecond columns of the tables are integers too.

  \<^verbatim>\<open>Role.Users\<close> is left out of the record: no query of the program preloads it,
  so it is always empty and \<^verbatim>\<open>omitempty\<close> drops it from every serialisation.

  \<^verbatim>\<open>User.Roles\<close> is a slice that may be nil: \<open>None\<close> is the nil slice. Ranging
  over a nil slice and taking its length see no element; only the JSON encoder tells nil
  from empty.
\<close>

definition slice :: "'a list option \<Rightarrow> 'a list" where
  "slice s = (case s of None \<Rightarrow> [] | Some xs \<Rightarrow> xs)"

record Role =
  Role_ID :: nat
  Role_Name :: string
  Role_CreatedAt :: int
  Role_UpdatedAt :: int

record User =
  ID :: nat
  Email :: string
  Password :: string
  Name :: string
  Tel :: string
  Age :: int
  Address :: string
  City :: string
  Country :: string
  Gender :: string
  EmailVerified :: bool
  Roles :: "Role list option"
  CreatedAt :: int
  UpdatedAt :: int
  DeletedAt :: "int option"

section \<open>Token service (internal/auth)\<close>

subsection \<open>Time\<close>

definition Second :: int where
  "Second = 1000000000"

definition Minute :: int where
  "Minute = 60 * Second"

definition Hour :: int where
  "Hour = 60 * Minute"

text \<open>
  \<^verbatim>\<open>jwt.NewNumericDate(t)\<close> is \<^verbatim>\<open>t.Truncate(TimePrecision)\<close> with the
  default precision of one second.
\<close>

definition NewNumericDate :: "int \<Rightarrow> int" where
  "NewNumericDate t = t - t mod Second"

subsection \<open>Claims and tokens\<close>

text \<open>
  \<^verbatim>\<open>CustomClaims\<close> with the fields of the embedded \<^verbatim>\<open>jwt.RegisteredClaims\<close>
  that the service sets or the validator reads. The three dates are pointers in Go, hence
  options.
\<close>

record CustomClaims =
  UserID :: nat
  Claims_Email :: string
  Claims_Name :: string
  Claims_Roles :: "string list"
  Issuer :: string
  ExpiresAt :: "int option"
  NotBefore :: "int option"
  IssuedAt :: "int option"

record JOSE_Header =
  Header_typ :: "string option"
  Header_alg :: "string option"

text \<open>
  A token string is modelled by what the parser of the jwt package reads from it: either
  it does not split into three decodable segments (\<open>Malformed\<close>, carrying the raw
  text), or it is the compact form of a header, a claim set and a signature. The signing
  input of a compact token (its first two segments) is represented by the header and the
  claims themselves.
\<close>

datatype TokenString =
    Malformed string
  | Compact JOSE_Header CustomClaims string

text \<open>
  Primitives of the standard library and of the imported packages that the program calls
  and that have no counterpart in its source: the MACs of the three HMAC signing methods,
  the password hash, and the two string functions. They are parameters of the model; every
  theorem holds for each choice of them.
\<close>

record Lib =
  HMAC_SHA256 :: "string \<Rightarrow> JOSE_Header \<times> CustomClaims \<Rightarrow> string"
  HMAC_SHA384 :: "string \<Rightarrow> JOSE_Header \<times> CustomClaims \<Rightarrow> string"
  HMAC_SHA512 :: "string \<Rightarrow> JOSE_Header \<times> CustomClaims \<Rightarrow> string"
  GenerateFromPassword :: "string \<Rightarrow> string option"
  CompareHashAndPassword :: "string \<Rightarrow> string \<Rightarrow> bool"
  ToLower :: "string \<Rightarrow> string"
  TrimSpace :: "string \<Rightarrow> string"

datatype SigningMethod =
    SigningMethodHS256
  | SigningMethodHS384
  | SigningMethodHS512
  | OtherMethod string

text \<open>The signing methods the jwt package registers, looked up by their \<open>alg\<close> name.\<close>

definition GetSigningMethod :: "string \<Rightarrow> SigningMethod option" where
  "GetSigningMethod a =
     (if a = ''HS256'' then Some SigningMethodHS256
      else if a = ''HS384'' then Some SigningMethodHS384
      else if a = ''HS512'' then Some SigningMethodHS512
      else if List.member [''RS256'', ''RS384'', ''RS512'', ''PS256'', ''PS384'', ''PS512'',
                           ''ES256'', ''ES384'', ''ES512'', ''EdDSA'', ''none''] a
      then Some (OtherMethod a)
      else None)"

datatype claim_error = ErrTokenExpired | ErrTokenNotValidYet

datatype jwt_error =
    ErrTokenMalformed
  | ErrTokenUnverifiable
  | ErrTokenSignatureInvalid
  | ErrTokenInvalidClaims "claim_error list"

datatype auth_error =
    FailedToParseToken jwt_error
  | InvalidToken
  | FailedToSignToken
  | FailedToGenerateAccessToken auth_error
  | FailedToGenerateRefreshToken auth_error
  | UnexpectedSigningMethod

record Token =
  Token_Header :: JOSE_Header
  Token_Claims :: CustomClaims
  Token_Valid :: bool

text \<open>
  The default validator of the jwt package: a token with an expiry is valid strictly
  before it, a token with a not-before is valid from it on; absent dates are not checked,
  the issued-at date is not checked by default.
\<close>

definition Validate :: "int \<Rightarrow> CustomClaims \<Rightarrow> claim_error list" where
  "Validate now c =
     (case ExpiresAt c of None \<Rightarrow> [] | Some e \<Rightarrow> if now < e then [] else [ErrTokenExpired]) @
     (case NotBefore c of None \<Rightarrow> [] | Some n \<Rightarrow> if now < n then [ErrTokenNotValidYet] else [])"

text \<open>
  \<open>Verify\<close> of a signing method, for a key that is a byte slice (the only kind of key
  the key function of this service returns). Each of the three HMAC methods recomputes its
  MAC of the signing input under the key and compares. The RSA, ECDSA and EdDSA methods
  refuse a byte slice as a key of the wrong type, and the method \<open>none\<close> refuses every
  key but its own marker.
\<close>

definition Verify :: "Lib \<Rightarrow> SigningMethod \<Rightarrow> JOSE_Header \<times> CustomClaims \<Rightarrow> string \<Rightarrow> string \<Rightarrow> bool" where
  "Verify L m signing_input sig key =
     (case m of
        SigningMethodHS256 \<Rightarrow> sig = HMAC_SHA256 L key signing_input
      | SigningMethodHS384 \<Rightarrow> sig = HMAC_SHA384 L key signing_input
      | SigningMethodHS512 \<Rightarrow> sig = HMAC_SHA512 L key signing_input
      | OtherMethod _ \<Rightarrow> False)"

text \<open>
  \<^verbatim>\<open>jwt.ParseWithClaims\<close> (version 5): split and decode, look the method up, ask the
  key function for the key, verify the signature, validate the claims.
\<close>

definition ParseWithClaims ::
  "Lib \<Rightarrow> TokenString \<Rightarrow> (SigningMethod \<Rightarrow> auth_error + string) \<Rightarrow> int \<Rightarrow> jwt_error + Token" where
  "ParseWithClaims L tokenString keyFunc now =
     (case tokenString of
        Malformed _ \<Rightarrow> Inl ErrTokenMalformed
      | Compact h c sig \<Rightarrow>
          (case Header_alg h of
             None \<Rightarrow> Inl ErrTokenUnverifiable
           | Some a \<Rightarrow>
               (case GetSigningMethod a of
                  None \<Rightarrow> Inl ErrTokenUnverifiable
                | Some m \<Rightarrow>
                    (case keyFunc m of
                       Inl _ \<Rightarrow> Inl ErrTokenUnverifiable
                     | Inr key \<Rightarrow>
                         if \<not> Verify L m (h, c) sig key then Inl ErrTokenSignatureInvalid
                         else (case Validate now c of
                                 [] \<Rightarrow> Inr \<lparr>Token_Header = h, Token_Claims = c, Token_Valid = True\<rparr>
                               | e # es \<Rightarrow> Inl (ErrTokenInvalidClaims (e # es)))))))"

text \<open>
  \<^verbatim>\<open>jwt.NewWithClaims(method, claims)\<close> followed by \<^verbatim>\<open>SignedString(key)\<close>. With a
  byte-slice key the HMAC method does not fail.
\<close>

definition SignedString :: "Lib \<Rightarrow> CustomClaims \<Rightarrow> string \<Rightarrow> auth_error + TokenString" where
  "SignedString L claims key =
     (let h = \<lparr>Header_typ = Some ''JWT'', Header_alg = Some ''HS256''\<rparr>
      in Inr (Compact h claims (HMAC_SHA256 L key (h, claims))))"

subsection \<open>JWTService\<close>

record JWTService =
  secretKey :: string

record TokenPair =
  AccessToken :: TokenString
  RefreshToken :: TokenString

text \<open>\<open>generateToken\<close>; the argument \<open>now\<close> is what its call of \<^verbatim>\<open>time.Now()\<close> returns.\<close>

definition generateToken ::
  "Lib \<Rightarrow> JWTService \<Rightarrow> User \<Rightarrow> string list \<Rightarrow> int \<Rightarrow> int \<Rightarrow> auth_error + TokenString" where
  "generateToken L js user roleNames duration now =
     (let expirationTime = now + duration;
          claims = \<lparr>UserID = ID user,
                    Claims_Email = Email user,
                    Claims_Name = Name user,
                    Claims_Roles = roleNames,
                    Issuer = ''um-api'',
                    ExpiresAt = Some (NewNumericDate expirationTime),
                    NotBefore = Some (NewNumericDate now),
                    IssuedAt = Some (NewNumericDate now)\<rparr>
      in case SignedString L claims (secretKey js) of
           Inl _ \<Rightarrow> Inl FailedToSignToken
         | Inr tokenString \<Rightarrow> Inr tokenString)"

text \<open>
  \<open>GenerateTokenPair\<close>. Each of the two calls of \<open>generateToken\<close> reads the clock for
  itself: \<open>now1\<close> and \<open>now2\<close> are the two readings, in that order.
\<close>

definition GenerateTokenPair ::
  "Lib \<Rightarrow> JWTService \<Rightarrow> User \<Rightarrow> int \<Rightarrow> int \<Rightarrow> auth_error + TokenPair" where
  "GenerateTokenPair L js user now1 now2 =
     (let roleNames = map Role_Name (slice (Roles user))
      in case generateToken L js user roleNames (15 * Minute) now1 of
           Inl err \<Rightarrow> Inl (FailedToGenerateAccessToken err)
         | Inr accessToken \<Rightarrow>
             (case generateToken L js user roleNames (7 * 24 * Hour) now2 of
                Inl err \<Rightarrow> Inl (FailedToGenerateRefreshToken err)
              | Inr refreshToken \<Rightarrow>
                  Inr \<lparr>AccessToken = accessToken, RefreshToken = refreshToken\<rparr>))"

text \<open>\<open>ValidateToken\<close>; \<open>now\<close> is the clock reading of the validator.\<close>

definition ValidateToken :: "Lib \<Rightarrow> JWTService \<Rightarrow> int \<Rightarrow> TokenString \<Rightarrow> auth_error + CustomClaims" where
  "ValidateToken L js now tokenString =
     (case ParseWithClaims L tokenString
             (\<lambda>m. if m \<noteq> SigningMethodHS256 then Inl UnexpectedSigningMethod
                  else Inr (secretKey js)) now of
        Inl err \<Rightarrow> Inl (FailedToParseToken err)
      | Inr token \<Rightarrow>
          if \<not> Token_Valid token then Inl InvalidToken
          else Inr (Token_Claims token))"

definition ValidateRefreshToken :: "Lib \<Rightarrow> JWTService \<Rightarrow> int \<Rightarrow> TokenString \<Rightarrow> auth_error + CustomClaims" where
  "ValidateRefreshToken L js now tokenString = ValidateToken L js now tokenString"

section \<open>The directory: tables and the statements gorm runs on them\<close>

text \<open>
  The database and the rest of the environment of a request. The three tables keep their
  rows in primary-key order (a new row gets the next identifier and is appended). A stored
  user row has no \<open>Roles\<close>: the association lives in \<open>user_roles\<close>.
  \<open>faults\<close> says, for each statement still to come, whether the database fails on it
  (none left: no failure). \<open>now\<close> is the clock; each reading advances it by the next
  entry of \<open>ticks\<close>. \<open>raw_First\<close> is the answer of the database to a query for the
  first user under a condition given as raw SQL text, for the rows the table holds: an
  error, or the first row of the result, which need not be a row of the table.
\<close>

datatype gorm_error = ErrRecordNotFound | ErrDatabase

record World =
  users :: "User list"
  roles :: "Role list"
  user_roles :: "(nat \<times> nat) list"
  next_user_id :: nat
  next_role_id :: nat
  faults :: "bool list"
  now :: int
  ticks :: "nat list"
  raw_First :: "string \<Rightarrow> User list \<Rightarrow> gorm_error + User"


definition time_Now :: "World \<Rightarrow> int \<times> World" where
  "time_Now w =
     (case ticks w of
        [] \<Rightarrow> (now w, w)
      | d # ds \<Rightarrow> (now w, w\<lparr>now := now w + int d, ticks := ds\<rparr>))"

definition next_fault :: "World \<Rightarrow> bool \<times> World" where
  "next_fault w =
     (case faults w of
        [] \<Rightarrow> (False, w)
      | f # fs \<Rightarrow> (f, w\<lparr>faults := fs\<rparr>))"

definition UnixMilli :: "int \<Rightarrow> int" where
  "UnixMilli t = t div 1000000"

text \<open>\<^verbatim>\<open>Preload("Roles")\<close>: the roles associated with the user, from the join table.\<close>

definition preload_Roles :: "World \<Rightarrow> User \<Rightarrow> User" where
  "preload_Roles w u =
     u\<lparr>Roles := Some (filter (\<lambda>r. List.member (user_roles w) (ID u, Role_ID r)) (roles w))\<rparr>"

definition load :: "bool \<Rightarrow> World \<Rightarrow> User \<Rightarrow> User" where
  "load preload w u = (if preload then preload_Roles w u else u\<lparr>Roles := None\<rparr>)"

text \<open>
  \<^verbatim>\<open>db.First(&user, id)\<close> with a \<^verbatim>\<open>uint\<close>: the row with that primary key that is
  not soft-deleted (the \<^verbatim>\<open>gorm.DeletedAt\<close> column adds \<^verbatim>\<open>deleted_at IS NULL\<close> to
  every query).
\<close>

definition First_id :: "bool \<Rightarrow> nat \<Rightarrow> World \<Rightarrow> (gorm_error + User) \<times> World" where
  "First_id preload i w =
     (let (f, w1) = next_fault w
      in if f then (Inl ErrDatabase, w1)
         else (case find (\<lambda>u. ID u = i \<and> DeletedAt u = None) (users w1) of
                 None \<Rightarrow> (Inl ErrRecordNotFound, w1)
               | Some u \<Rightarrow> (Inr (load preload w1 u), w1)))"

text \<open>\<^verbatim>\<open>strconv.Atoi\<close>: an optional sign and decimal digits, within 64 bits.\<close>

definition digit :: "char \<Rightarrow> nat option" where
  "digit ch =
     (let n = (of_char ch :: nat) in if 48 \<le> n \<and> n \<le> 57 then Some (n - 48) else None)"

fun digits :: "nat \<Rightarrow> string \<Rightarrow> nat option" where
  "digits acc [] = Some acc"
| "digits acc (ch # cs) =
     (case digit ch of None \<Rightarrow> None | Some d \<Rightarrow> digits (10 * acc + d) cs)"

definition Atoi :: "string \<Rightarrow> int option" where
  "Atoi s =
     (let (neg, ds) = (case s of
                         [] \<Rightarrow> (False, [])
                       | ch # cs \<Rightarrow> if ch = CHR ''-'' then (True, cs)
                                   else if ch = CHR ''+'' then (False, cs)
                                   else (False, s))
      in if ds = [] then None
         else (case digits 0 ds of
                 None \<Rightarrow> None
               | Some n \<Rightarrow>
                   let v = (if neg then - int n else int n)
                   in if - (2 ^ 63) \<le> v \<and> v < 2 ^ 63 then Some v else None))"

text \<open>
  \<^verbatim>\<open>db.First(&user, userID)\<close> with the text of the path parameter. gorm takes a
  text that \<open>Atoi\<close> accepts for a primary key. Any other text it sends to the database
  as the raw condition of the query (the empty text as no condition), so the answer is
  whatever the database makes of that text.
\<close>

definition First_param :: "bool \<Rightarrow> string \<Rightarrow> World \<Rightarrow> (gorm_error + User) \<times> World" where
  "First_param preload userID w =
     (let (f, w1) = next_fault w
      in if f then (Inl ErrDatabase, w1)
         else (case Atoi userID of
                 Some k \<Rightarrow>
                   (case find (\<lambda>u. int (ID u) = k \<and> DeletedAt u = None) (users w1) of
                      None \<Rightarrow> (Inl ErrRecordNotFound, w1)
                    | Some u \<Rightarrow> (Inr (load preload w1 u), w1))
               | None \<Rightarrow>
                   if userID = [] then
                     (case find (\<lambda>u. DeletedAt u = None) (users w1) of
                        None \<Rightarrow> (Inl ErrRecordNotFound, w1)
                      | Some u \<Rightarrow> (Inr (load preload w1 u), w1))
                   else
                     (case raw_First w1 userID (users w1) of
                        Inl e \<Rightarrow> (Inl e, w1)
                      | Inr u \<Rightarrow> (Inr (load preload w1 u), w1))))"

text \<open>\<^verbatim>\<open>db.Where("email = ?", email).First(&user)\<close>.\<close>

definition First_email :: "bool \<Rightarrow> string \<Rightarrow> World \<Rightarrow> (gorm_error + User) \<times> World" where
  "First_email preload email w =
     (let (f, w1) = next_fault w
      in if f then (Inl ErrDatabase, w1)
         else (case find (\<lambda>u. Email u = email \<and> DeletedAt u = None) (users w1) of
                 None \<Rightarrow> (Inl ErrRecordNotFound, w1)
               | Some u \<Rightarrow> (Inr (load preload w1 u), w1)))"

text \<open>\<^verbatim>\<open>db.Preload("Roles").Find(&users)\<close>.\<close>

definition Find_all :: "World \<Rightarrow> (gorm_error + User list) \<times> World" where
  "Find_all w =
     (let (f, w1) = next_fault w
      in if f then (Inl ErrDatabase, w1)
         else (Inr (map (preload_Roles w1) (filter (\<lambda>u. DeletedAt u = None) (users w1))), w1))"

text \<open>
  \<^verbatim>\<open>db.FirstOrCreate(&role, models.Role{Name: name})\<close>: a query, then an insert when
  the query finds nothing. A struct condition only counts its non-zero fields, so the empty
  name is no condition at all.
\<close>

definition FirstOrCreate_Role :: "string \<Rightarrow> World \<Rightarrow> (gorm_error + Role) \<times> World" where
  "FirstOrCreate_Role name w =
     (let (f, w1) = next_fault w
      in if f then (Inl ErrDatabase, w1)
         else (case find (\<lambda>r. name = [] \<or> Role_Name r = name) (roles w1) of
                 Some r \<Rightarrow> (Inr r, w1)
               | None \<Rightarrow>
                   (let (g, w2) = next_fault w1
                    in if g then (Inl ErrDatabase, w2)
                       else (let (t, w3) = time_Now w2;
                                 r = \<lparr>Role_ID = next_role_id w3, Role_Name = name,
                                      Role_CreatedAt = UnixMilli t, Role_UpdatedAt = UnixMilli t\<rparr>
                             in (Inr r, w3\<lparr>roles := roles w3 @ [r],
                                            next_role_id := Suc (next_role_id w3)\<rparr>)))))"

text \<open>
  The insert of a user row. It fails on the unique index of the email column, which also
  covers the soft-deleted rows, and on the primary key. A struct without a primary key
  gets the next value of the sequence (which is used up also when the insert fails);
  creation and update time are set where the struct has none, and the roles of the struct
  are associated.
\<close>

definition insert_User :: "User \<Rightarrow> World \<Rightarrow> (gorm_error + User) \<times> World" where
  "insert_User u w =
     (let (t, w1) = time_Now w;
          w2 = (if ID u = 0 then w1\<lparr>next_user_id := Suc (next_user_id w1)\<rparr> else w1);
          row = u\<lparr>ID := (if ID u = 0 then next_user_id w1 else ID u),
                  CreatedAt := (if CreatedAt u = 0 then UnixMilli t else CreatedAt u),
                  UpdatedAt := (if UpdatedAt u = 0 then UnixMilli t else UpdatedAt u)\<rparr>
      in if list_ex (\<lambda>r. Email r = Email row \<or> ID r = ID row) (users w2) then (Inl ErrDatabase, w2)
         else (Inr row,
               w2\<lparr>users := insort_key ID (row\<lparr>Roles := None\<rparr>) (users w2),
                  user_roles := user_roles w2 @
                    filter (\<lambda>p. \<not> List.member (user_roles w2) p)
                      (remdups (map (\<lambda>r. (ID row, Role_ID r)) (slice (Roles u))))\<rparr>))"

text \<open>\<^verbatim>\<open>db.Create(&newUser)\<close>.\<close>

definition Create_User :: "User \<Rightarrow> World \<Rightarrow> (gorm_error + User) \<times> World" where
  "Create_User u w =
     (let (f, w1) = next_fault w
      in if f then (Inl ErrDatabase, w1) else insert_User u w1)"

text \<open>
  The second statement of \<open>Save\<close>, run when its update touched no row: an insert that,
  on a conflict of the primary key, overwrites every column of the row that is there.
\<close>

definition upsert_User :: "User \<Rightarrow> World \<Rightarrow> (gorm_error + User) \<times> World" where
  "upsert_User u w =
     (let (f, w1) = next_fault w
      in if f then (Inl ErrDatabase, w1)
         else if list_ex (\<lambda>r. ID r \<noteq> ID u \<and> Email r = Email u) (users w1) then
           (Inl ErrDatabase, w1)
         else if list_ex (\<lambda>r. ID r = ID u) (users w1) then
           (Inr u, w1\<lparr>users := map (\<lambda>r. if ID r = ID u then u\<lparr>Roles := None\<rparr> else r) (users w1)\<rparr>)
         else
           (Inr u, w1\<lparr>users := insort_key ID (u\<lparr>Roles := None\<rparr>) (users w1)\<rparr>))"

text \<open>
  \<^verbatim>\<open>db.Save(&user)\<close> for a struct with no roles loaded. Without a primary key it
  is an insert. With one it is an update of every column of the live row with that key,
  under a new update time, which fails when the email is that of another row; when there is
  no live row with that key, the second statement follows.
\<close>

definition Save_User :: "User \<Rightarrow> World \<Rightarrow> (gorm_error + User) \<times> World" where
  "Save_User u w =
     (let (f, w1) = next_fault w
      in if f then (Inl ErrDatabase, w1)
         else if ID u = 0 then insert_User u w1
         else (let (t, w2) = time_Now w1;
                   u' = u\<lparr>UpdatedAt := UnixMilli t\<rparr>
               in if list_ex (\<lambda>r. ID r = ID u \<and> DeletedAt r = None) (users w2) then
                    (if list_ex (\<lambda>r. ID r \<noteq> ID u \<and> Email r = Email u) (users w2) then
                       (Inl ErrDatabase, w2)
                     else
                       (Inr u',
                        w2\<lparr>users := map (\<lambda>r. if ID r = ID u \<and> DeletedAt r = None
                                              then u'\<lparr>Roles := None\<rparr> else r) (users w2)\<rparr>))
                  else upsert_User (u'\<lparr>CreatedAt := (if CreatedAt u = 0 then UnixMilli t
                                                        else CreatedAt u)\<rparr>) w2))"

text \<open>\<^verbatim>\<open>db.Delete(&user)\<close>: a soft delete, the row stays with its deletion time.\<close>

definition Delete_User :: "User \<Rightarrow> World \<Rightarrow> (gorm_error + unit) \<times> World" where
  "Delete_User u w =
     (let (f, w1) = next_fault w
      in if f then (Inl ErrDatabase, w1)
         else (let (t, w2) = time_Now w1
               in (Inr (),
                   w2\<lparr>users := map (\<lambda>r. if ID r = ID u \<and> DeletedAt r = None
                                         then r\<lparr>DeletedAt := Some t\<rparr> else r) (users w2)\<rparr>)))"

text \<open>
  \<^verbatim>\<open>db.Model(&user).Association("Roles").Append(&role)\<close>: the pair enters the join
  table (whose primary key is the pair), the role is appended to the roles of the struct,
  and the update time of the parent row and of the struct is renewed.
\<close>

definition Append_Role :: "User \<Rightarrow> Role \<Rightarrow> World \<Rightarrow> (gorm_error + User) \<times> World" where
  "Append_Role u r w =
     (let (f, w1) = next_fault w
      in if f then (Inl ErrDatabase, w1)
         else (let (t, w2) = time_Now w1
               in (Inr (u\<lparr>Roles := Some (slice (Roles u) @ [r]), UpdatedAt := UnixMilli t\<rparr>),
                   w2\<lparr>user_roles := (if List.member (user_roles w2) (ID u, Role_ID r)
                                      then user_roles w2
                                      else user_roles w2 @ [(ID u, Role_ID r)]),
                      users := map (\<lambda>x. if ID x = ID u \<and> DeletedAt x = None
                                         then x\<lparr>UpdatedAt := UnixMilli t\<rparr> else x) (users w2)\<rparr>)))"

text \<open>
  \<^verbatim>\<open>db.Model(&user).Association("Roles").Delete(role)\<close>: the pair leaves the join
  table and the role leaves the roles of the struct.
\<close>

definition Delete_Role :: "User \<Rightarrow> Role \<Rightarrow> World \<Rightarrow> (gorm_error + User) \<times> World" where
  "Delete_Role u r w =
     (let (f, w1) = next_fault w
      in if f then (Inl ErrDatabase, w1)
         else (Inr (u\<lparr>Roles := map_option (filter (\<lambda>x. Role_ID x \<noteq> Role_ID r)) (Roles u)\<rparr>),
               w1\<lparr>user_roles := filter (\<lambda>p. p \<noteq> (ID u, Role_ID r)) (user_roles w1)\<rparr>))"

section \<open>Requests, contexts and responses\<close>

text \<open>
  \<^verbatim>\<open>c.ShouldBindJSON(&req)\<close> belongs to gin: a handler receives \<open>None\<close> when the
  binding fails and the bound request otherwise.
\<close>

record RegisterRequest =
  reg_Email :: string
  reg_Password :: string
  reg_Name :: string
  reg_Tel :: string
  reg_Age :: int
  reg_Gender :: string
  reg_Address :: string
  reg_City :: string
  reg_Country :: string

record LoginRequest =
  login_Email :: string
  login_Password :: string

record RefreshRequest =
  refresh_RefreshToken :: TokenString

record UpdateUserRequest =
  upd_Name :: string
  upd_Tel :: string
  upd_Age :: int
  upd_Address :: string
  upd_City :: string
  upd_Country :: string
  upd_Gender :: string

record AssignRoleRequest =
  assign_RoleName :: string

record RemoveRoleRequest =
  remove_RoleName :: string

text \<open>
  The value of the \<^verbatim>\<open>Authorization\<close> header: \<open>BearerToken t\<close> is the text
  \<^verbatim>\<open>"Bearer "\<close> followed by the token text \<open>t\<close>; \<open>Text s\<close> is any text that carries
  no decodable token (the empty text when the header is absent).
\<close>

datatype HeaderText = Text string | BearerToken TokenString

datatype ctx_value = UserPtr User | ClaimsPtr CustomClaims

record Context =
  Authorization :: HeaderText
  Param_id :: string
  Keys :: "string \<Rightarrow> ctx_value option"

datatype Data =
    Data_User User
  | Data_Users "User list"
  | Data_UserTokens User TokenPair
  | Data_Tokens TokenPair
  | Data_Message string

text \<open>
  \<open>ErrorResponse\<close> also stands for the \<^verbatim>\<open>gin.H{"error": ...}\<close> of the middleware,
  which has the same JSON form. \<open>Panic\<close> is a failed type assertion without the
  \<^verbatim>\<open>ok\<close> result.
\<close>

datatype Payload = ErrorResponse string | SuccessResponse Data

datatype Response = JSON nat Payload | Panic

datatype Step = Abort Response | Next Context

text \<open>The status code a client sees; gin's recovery answers a panic with 500.\<close>

fun status :: "Response \<Rightarrow> nat" where
  "status (JSON code p) = code"
| "status Panic = 500"

abbreviation StatusOK :: nat where "StatusOK \<equiv> 200"
abbreviation StatusCreated :: nat where "StatusCreated \<equiv> 201"
abbreviation StatusBadRequest :: nat where "StatusBadRequest \<equiv> 400"
abbreviation StatusUnauthorized :: nat where "StatusUnauthorized \<equiv> 401"
abbreviation StatusForbidden :: nat where "StatusForbidden \<equiv> 403"
abbreviation StatusNotFound :: nat where "StatusNotFound \<equiv> 404"
abbreviation StatusInternalServerError :: nat where "StatusInternalServerError \<equiv> 500"

section \<open>Middleware (internal/middleware)\<close>

definition HasPrefix :: "string \<Rightarrow> string \<Rightarrow> bool" where
  "HasPrefix s p = (take (length p) s = p)"

definition bearerScheme :: string where
  "bearerScheme = ''Bearer ''"

text \<open>The first two checks of \<open>AuthMiddleware\<close> and the slice that yields the token text.\<close>

definition bearer_token :: "Context \<Rightarrow> Response + TokenString" where
  "bearer_token c =
     (case Authorization c of
        Text authHeader \<Rightarrow>
          if authHeader = [] then
            Inl (JSON StatusUnauthorized (ErrorResponse ''Missing authorization header''))
          else if \<not> HasPrefix authHeader bearerScheme then
            Inl (JSON StatusUnauthorized (ErrorResponse ''Invalid authorization header format''))
          else Inr (Malformed (drop (length bearerScheme) authHeader))
      | BearerToken tokenString \<Rightarrow> Inr tokenString)"

definition AuthMiddleware :: "Lib \<Rightarrow> JWTService \<Rightarrow> Context \<Rightarrow> World \<Rightarrow> Step \<times> World" where
  "AuthMiddleware L jwtService c w =
     (case bearer_token c of
        Inl r \<Rightarrow> (Abort r, w)
      | Inr tokenString \<Rightarrow>
          (let (t, w1) = time_Now w
           in case ValidateToken L jwtService t tokenString of
                Inl err \<Rightarrow>
                  (Abort (JSON StatusUnauthorized (ErrorResponse ''Invalid or expired token'')), w1)
              | Inr claims \<Rightarrow>
                  (case First_id True (UserID claims) w1 of
                     (Inl ErrRecordNotFound, w2) \<Rightarrow>
                       (Abort (JSON StatusUnauthorized (ErrorResponse ''User not found'')), w2)
                   | (Inl ErrDatabase, w2) \<Rightarrow>
                       (Abort (JSON StatusInternalServerError (ErrorResponse ''Database error'')), w2)
                   | (Inr user, w2) \<Rightarrow>
                       (Next (c\<lparr>Keys := (Keys c)(''user'' \<mapsto> UserPtr user,
                                                  ''claims'' \<mapsto> ClaimsPtr claims)\<rparr>), w2))))"

text \<open>The two nested loops of \<open>RoleMiddleware\<close>, each left at the first match.\<close>

fun allowed_loop :: "string \<Rightarrow> string list \<Rightarrow> bool" where
  "allowed_loop userRoleName [] = False"
| "allowed_loop userRoleName (allowedRole # rest) =
     (if userRoleName = allowedRole then True else allowed_loop userRoleName rest)"

fun hasRole :: "Role list \<Rightarrow> string list \<Rightarrow> bool" where
  "hasRole [] allowedRoles = False"
| "hasRole (userRole # rest) allowedRoles =
     (if allowed_loop (Role_Name userRole) allowedRoles then True else hasRole rest allowedRoles)"

definition RoleMiddleware :: "string list \<Rightarrow> Context \<Rightarrow> Step" where
  "RoleMiddleware allowedRoles c =
     (case Keys c ''user'' of
        None \<Rightarrow> Abort (JSON StatusUnauthorized (ErrorResponse ''Unauthorized''))
      | Some (ClaimsPtr _) \<Rightarrow>
          Abort (JSON StatusInternalServerError (ErrorResponse ''Invalid user data''))
      | Some (UserPtr userObj) \<Rightarrow>
          if \<not> hasRole (slice (Roles userObj)) allowedRoles then
            Abort (JSON StatusForbidden (ErrorResponse ''Insufficient permissions''))
          else Next c)"

section \<open>Handlers (internal/handlers)\<close>

record AuthHandler =
  jwtService :: JWTService

definition RegisterHandler ::
  "Lib \<Rightarrow> AuthHandler \<Rightarrow> RegisterRequest option \<Rightarrow> Context \<Rightarrow> World \<Rightarrow> Response \<times> World" where
  "RegisterHandler L ah body c w =
     (case body of
        None \<Rightarrow> (JSON StatusBadRequest (ErrorResponse ''Invalid input''), w)
      | Some req \<Rightarrow>
          (case First_email False (reg_Email req) w of
             (Inr existingUser, w1) \<Rightarrow>
               (JSON StatusBadRequest (ErrorResponse ''User already exists''), w1)
           | (Inl ErrDatabase, w1) \<Rightarrow>
               (JSON StatusInternalServerError (ErrorResponse ''Database error''), w1)
           | (Inl ErrRecordNotFound, w1) \<Rightarrow>
               (case GenerateFromPassword L (reg_Password req) of
                  None \<Rightarrow>
                    (JSON StatusInternalServerError (ErrorResponse ''Failed to process password''), w1)
                | Some hashedPassword \<Rightarrow>
                    (case FirstOrCreate_Role ''user'' w1 of
                       (Inl _, w2) \<Rightarrow>
                         (JSON StatusInternalServerError (ErrorResponse ''Database error''), w2)
                     | (Inr userRole, w2) \<Rightarrow>
                         (let newUser = \<lparr>ID = 0, Email = reg_Email req, Password = hashedPassword,
                                         Name = reg_Name req, Tel = reg_Tel req, Age = reg_Age req,
                                         Address = reg_Address req, City = reg_City req,
                                         Country = reg_Country req, Gender = reg_Gender req,
                                         EmailVerified = False, Roles = Some [userRole],
                                         CreatedAt = 0, UpdatedAt = 0, DeletedAt = None\<rparr>
                          in case Create_User newUser w2 of
                               (Inl _, w3) \<Rightarrow>
                                 (JSON StatusInternalServerError
                                    (ErrorResponse ''Failed to create user''), w3)
                             | (Inr created, w3) \<Rightarrow>
                                 (case First_id True (ID created) w3 of
                                    (Inl _, w4) \<Rightarrow>
                                      (JSON StatusInternalServerError
                                         (ErrorResponse ''Failed to retrieve user''), w4)
                                  | (Inr loaded, w4) \<Rightarrow>
                                      (let (now1, w5) = time_Now w4;
                                           (now2, w6) = time_Now w5
                                       in case GenerateTokenPair L (jwtService ah) loaded now1 now2 of
                                            Inl _ \<Rightarrow>
                                              (JSON StatusInternalServerError
                                                 (ErrorResponse ''Failed to generate tokens''), w6)
                                          | Inr tokenPair \<Rightarrow>
                                              (JSON StatusCreated
                                                 (SuccessResponse (Data_UserTokens loaded tokenPair)),
                                               w6))))))))"

definition LoginHandler ::
  "Lib \<Rightarrow> AuthHandler \<Rightarrow> LoginRequest option \<Rightarrow> Context \<Rightarrow> World \<Rightarrow> Response \<times> World" where
  "LoginHandler L ah body c w =
     (case body of
        None \<Rightarrow> (JSON StatusBadRequest (ErrorResponse ''Invalid input''), w)
      | Some req \<Rightarrow>
          (case First_email True (login_Email req) w of
             (Inl ErrRecordNotFound, w1) \<Rightarrow>
               (JSON StatusUnauthorized (ErrorResponse ''Invalid email or password''), w1)
           | (Inl ErrDatabase, w1) \<Rightarrow>
               (JSON StatusInternalServerError (ErrorResponse ''Database error''), w1)
           | (Inr user, w1) \<Rightarrow>
               if \<not> CompareHashAndPassword L (Password user) (login_Password req) then
                 (JSON StatusUnauthorized (ErrorResponse ''Invalid email or password''), w1)
               else
                 (let (now1, w2) = time_Now w1;
                      (now2, w3) = time_Now w2
                  in case GenerateTokenPair L (jwtService ah) user now1 now2 of
                       Inl _ \<Rightarrow>
                         (JSON StatusInternalServerError
                            (ErrorResponse ''Failed to generate tokens''), w3)
                     | Inr tokenPair \<Rightarrow>
                         (JSON StatusOK (SuccessResponse (Data_UserTokens user tokenPair)), w3))))"

definition RefreshHandler ::
  "Lib \<Rightarrow> AuthHandler \<Rightarrow> RefreshRequest option \<Rightarrow> Context \<Rightarrow> World \<Rightarrow> Response \<times> World" where
  "RefreshHandler L ah body c w =
     (case body of
        None \<Rightarrow> (JSON StatusBadRequest (ErrorResponse ''Invalid input''), w)
      | Some req \<Rightarrow>
          (let (t, w1) = time_Now w
           in case ValidateRefreshToken L (jwtService ah) t (refresh_RefreshToken req) of
                Inl err \<Rightarrow>
                  (JSON StatusUnauthorized (ErrorResponse ''Invalid refresh token''), w1)
              | Inr claims \<Rightarrow>
                  (case First_id True (UserID claims) w1 of
                     (Inl ErrRecordNotFound, w2) \<Rightarrow>
                       (JSON StatusUnauthorized (ErrorResponse ''User not found''), w2)
                   | (Inl ErrDatabase, w2) \<Rightarrow>
                       (JSON StatusInternalServerError (ErrorResponse ''Database error''), w2)
                   | (Inr user, w2) \<Rightarrow>
                       (let (now1, w3) = time_Now w2;
                            (now2, w4) = time_Now w3
                        in case GenerateTokenPair L (jwtService ah) user now1 now2 of
                             Inl _ \<Rightarrow>
                               (JSON StatusInternalServerError
                                  (ErrorResponse ''Failed to generate tokens''), w4)
                           | Inr tokenPair \<Rightarrow>
                               (JSON StatusOK (SuccessResponse (Data_Tokens tokenPair)), w4)))))"

definition ProfileHandler :: "Context \<Rightarrow> World \<Rightarrow> Response \<times> World" where
  "ProfileHandler c w =
     (case Keys c ''user'' of
        None \<Rightarrow> (JSON StatusUnauthorized (ErrorResponse ''Unauthorized''), w)
      | Some (ClaimsPtr _) \<Rightarrow>
          (JSON StatusInternalServerError (ErrorResponse ''Invalid user data''), w)
      | Some (UserPtr userObj) \<Rightarrow> (JSON StatusOK (SuccessResponse (Data_User userObj)), w))"

definition GetAllUsersHandler :: "Context \<Rightarrow> World \<Rightarrow> Response \<times> World" where
  "GetAllUsersHandler c w =
     (case Find_all w of
        (Inl _, w1) \<Rightarrow> (JSON StatusInternalServerError (ErrorResponse ''Database error''), w1)
      | (Inr us, w1) \<Rightarrow> (JSON StatusOK (SuccessResponse (Data_Users us)), w1))"

definition GetUserByIDHandler :: "Context \<Rightarrow> World \<Rightarrow> Response \<times> World" where
  "GetUserByIDHandler c w =
     (let userID = Param_id c
      in case First_param True userID w of
           (Inl ErrRecordNotFound, w1) \<Rightarrow>
             (JSON StatusNotFound (ErrorResponse ''User not found''), w1)
         | (Inl ErrDatabase, w1) \<Rightarrow>
             (JSON StatusInternalServerError (ErrorResponse ''Database error''), w1)
         | (Inr user, w1) \<Rightarrow> (JSON StatusOK (SuccessResponse (Data_User user)), w1))"

text \<open>
  The Go conversions of \<^verbatim>\<open>string(rune(currentUserObj.ID))\<close>: \<^verbatim>\<open>rune(n)\<close> keeps the
  low 32 bits of the unsigned value as a signed number, and \<^verbatim>\<open>string(r)\<close> is the
  UTF-8 encoding of the code point \<open>r\<close>, or of U+FFFD when \<open>r\<close> is no valid code point.
\<close>

definition rune :: "nat \<Rightarrow> int" where
  "rune n = (let v = int (n mod 2 ^ 32) in if v < 2 ^ 31 then v else v - 2 ^ 32)"

definition string_of_rune :: "int \<Rightarrow> string" where
  "string_of_rune r =
     (if r < 0 \<or> 1114111 < r \<or> (55296 \<le> r \<and> r \<le> 57343) then
        [char_of (239 :: int), char_of (191 :: int), char_of (189 :: int)]
      else if r < 128 then [char_of r]
      else if r < 2048 then [char_of (192 + r div 64), char_of (128 + r mod 64)]
      else if r < 65536 then
        [char_of (224 + r div 4096), char_of (128 + (r div 64) mod 64), char_of (128 + r mod 64)]
      else
        [char_of (240 + r div 262144), char_of (128 + (r div 4096) mod 64),
         char_of (128 + (r div 64) mod 64), char_of (128 + r mod 64)])"

text \<open>The loop of \<open>UpdateUserHandler\<close> that looks for the role named \<open>admin\<close>.\<close>

fun isAdmin :: "Role list \<Rightarrow> bool" where
  "isAdmin [] = False"
| "isAdmin (role # rest) = (if Role_Name role = ''admin'' then True else isAdmin rest)"

text \<open>The block of conditional assignments of \<open>UpdateUserHandler\<close>, in its order.\<close>

definition update_fields :: "UpdateUserRequest \<Rightarrow> User \<Rightarrow> User" where
  "update_fields req user0 =
     (let user1 = (if upd_Name req \<noteq> [] then user0\<lparr>Name := upd_Name req\<rparr> else user0);
          user2 = (if upd_Tel req \<noteq> [] then user1\<lparr>Tel := upd_Tel req\<rparr> else user1);
          user3 = (if upd_Age req \<noteq> 0 then user2\<lparr>Age := upd_Age req\<rparr> else user2);
          user4 = (if upd_Address req \<noteq> [] then user3\<lparr>Address := upd_Address req\<rparr> else user3);
          user5 = (if upd_City req \<noteq> [] then user4\<lparr>City := upd_City req\<rparr> else user4);
          user6 = (if upd_Country req \<noteq> [] then user5\<lparr>Country := upd_Country req\<rparr> else user5);
          user7 = (if upd_Gender req \<noteq> [] then user6\<lparr>Gender := upd_Gender req\<rparr> else user6);
          user8 = (if upd_Tel req \<noteq> [] then user7\<lparr>Tel := upd_Tel req\<rparr> else user7)
      in user8)"

definition UpdateUserHandler ::
  "UpdateUserRequest option \<Rightarrow> Context \<Rightarrow> World \<Rightarrow> Response \<times> World" where
  "UpdateUserHandler body c w =
     (let userID = Param_id c
      in case body of
           None \<Rightarrow> (JSON StatusBadRequest (ErrorResponse ''Invalid input''), w)
         | Some req \<Rightarrow>
             (case Keys c ''user'' of
                None \<Rightarrow> (JSON StatusUnauthorized (ErrorResponse ''Unauthorized''), w)
              | Some (ClaimsPtr _) \<Rightarrow> (Panic, w)
              | Some (UserPtr currentUserObj) \<Rightarrow>
                  if userID \<noteq> string_of_rune (rune (ID currentUserObj))
                     \<and> \<not> isAdmin (slice (Roles currentUserObj)) then
                    (JSON StatusForbidden (ErrorResponse ''Forbidden''), w)
                  else
                    (case First_param False userID w of
                       (Inl ErrRecordNotFound, w1) \<Rightarrow>
                         (JSON StatusNotFound (ErrorResponse ''User not found''), w1)
                     | (Inl ErrDatabase, w1) \<Rightarrow>
                         (JSON StatusInternalServerError (ErrorResponse ''Database error''), w1)
                     | (Inr user, w1) \<Rightarrow>
                         (case Save_User (update_fields req user) w1 of
                            (Inl _, w2) \<Rightarrow>
                              (JSON StatusInternalServerError
                                 (ErrorResponse ''Failed to update user''), w2)
                          | (Inr saved, w2) \<Rightarrow>
                              (case First_param True userID w2 of
                                 (Inl _, w3) \<Rightarrow>
                                   (JSON StatusOK (SuccessResponse (Data_User saved)), w3)
                               | (Inr reloaded, w3) \<Rightarrow>
                                   (JSON StatusOK (SuccessResponse (Data_User reloaded)), w3))))))"

definition DeleteUserHandler :: "Context \<Rightarrow> World \<Rightarrow> Response \<times> World" where
  "DeleteUserHandler c w =
     (let userID = Param_id c
      in case First_param False userID w of
           (Inl ErrRecordNotFound, w1) \<Rightarrow>
             (JSON StatusNotFound (ErrorResponse ''User not found''), w1)
         | (Inl ErrDatabase, w1) \<Rightarrow>
             (JSON StatusInternalServerError (ErrorResponse ''Database error''), w1)
         | (Inr user, w1) \<Rightarrow>
             (case Delete_User user w1 of
                (Inl _, w2) \<Rightarrow>
                  (JSON StatusInternalServerError (ErrorResponse ''Failed to delete user''), w2)
              | (Inr _, w2) \<Rightarrow>
                  (JSON StatusOK (SuccessResponse (Data_Message ''User deleted successfully'')), w2)))"

definition AssignRoleHandler ::
  "Lib \<Rightarrow> AssignRoleRequest option \<Rightarrow> Context \<Rightarrow> World \<Rightarrow> Response \<times> World" where
  "AssignRoleHandler L body c w =
     (let userID = Param_id c
      in case body of
           None \<Rightarrow> (JSON StatusBadRequest (ErrorResponse ''Invalid input''), w)
         | Some req \<Rightarrow>
             (let roleName = ToLower L (TrimSpace L (assign_RoleName req))
              in case First_param True userID w of
                   (Inl ErrRecordNotFound, w1) \<Rightarrow>
                     (JSON StatusNotFound (ErrorResponse ''User not found''), w1)
                 | (Inl ErrDatabase, w1) \<Rightarrow>
                     (JSON StatusInternalServerError (ErrorResponse ''Database error''), w1)
                 | (Inr user, w1) \<Rightarrow>
                     (case FirstOrCreate_Role roleName w1 of
                        (Inl _, w2) \<Rightarrow>
                          (JSON StatusInternalServerError (ErrorResponse ''Database error''), w2)
                      | (Inr role, w2) \<Rightarrow>
                          if list_ex (\<lambda>r. Role_ID r = Role_ID role) (slice (Roles user)) then
                            (JSON StatusBadRequest (ErrorResponse ''User already has this role''), w2)
                          else
                            (case Append_Role user role w2 of
                               (Inl _, w3) \<Rightarrow>
                                 (JSON StatusInternalServerError
                                    (ErrorResponse ''Failed to assign role''), w3)
                             | (Inr appended, w3) \<Rightarrow>
                                 (case First_param True userID w3 of
                                    (Inl _, w4) \<Rightarrow>
                                      (JSON StatusOK (SuccessResponse (Data_User appended)), w4)
                                  | (Inr reloaded, w4) \<Rightarrow>
                                      (JSON StatusOK (SuccessResponse (Data_User reloaded)), w4))))))"

definition RemoveRoleHandler ::
  "Lib \<Rightarrow> RemoveRoleRequest option \<Rightarrow> Context \<Rightarrow> World \<Rightarrow> Response \<times> World" where
  "RemoveRoleHandler L body c w =
     (let userID = Param_id c
      in case body of
           None \<Rightarrow> (JSON StatusBadRequest (ErrorResponse ''Invalid input''), w)
         | Some req \<Rightarrow>
             (let roleName = ToLower L (TrimSpace L (remove_RoleName req))
              in case First_param True userID w of
                   (Inl ErrRecordNotFound, w1) \<Rightarrow>
                     (JSON StatusNotFound (ErrorResponse ''User not found''), w1)
                 | (Inl ErrDatabase, w1) \<Rightarrow>
                     (JSON StatusInternalServerError (ErrorResponse ''Database error''), w1)
                 | (Inr user, w1) \<Rightarrow>
                     (case find (\<lambda>r. Role_Name r = roleName) (slice (Roles user)) of
                        None \<Rightarrow>
                          (JSON StatusBadRequest (ErrorResponse ''User doesn't have this role''), w1)
                      | Some roleToRemove \<Rightarrow>
                          (case Delete_Role user roleToRemove w1 of
                             (Inl _, w2) \<Rightarrow>
                               (JSON StatusInternalServerError
                                  (ErrorResponse ''Failed to remove role''), w2)
                           | (Inr removed, w2) \<Rightarrow>
                               (case First_param True userID w2 of
                                  (Inl _, w3) \<Rightarrow>
                                    (JSON StatusOK (SuccessResponse (Data_User removed)), w3)
                                | (Inr reloaded, w3) \<Rightarrow>
                                    (JSON StatusOK (SuccessResponse (Data_User reloaded)), w3))))))"

section \<open>Routes (cmd/api/main.go)\<close>

text \<open>
  The group \<^verbatim>\<open>protectedAPI\<close> runs \<open>AuthMiddleware\<close> before its handlers; its
  subgroup \<^verbatim>\<open>/users\<close> runs \<^verbatim>\<open>RoleMiddleware("admin")\<close> after that. A middleware
  that aborts ends the request with its response.
\<close>

definition protectedAPI ::
  "Lib \<Rightarrow> JWTService \<Rightarrow> (Context \<Rightarrow> World \<Rightarrow> Response \<times> World) \<Rightarrow> Context \<Rightarrow> World \<Rightarrow> Response \<times> World" where
  "protectedAPI L js handler c w =
     (case AuthMiddleware L js c w of
        (Abort r, w1) \<Rightarrow> (r, w1)
      | (Next c1, w1) \<Rightarrow> handler c1 w1)"

definition users_group ::
  "Lib \<Rightarrow> JWTService \<Rightarrow> (Context \<Rightarrow> World \<Rightarrow> Response \<times> World) \<Rightarrow> Context \<Rightarrow> World \<Rightarrow> Response \<times> World" where
  "users_group L js handler =
     protectedAPI L js
       (\<lambda>c w. case RoleMiddleware [''admin''] c of
                 Abort r \<Rightarrow> (r, w)
               | Next c1 \<Rightarrow> handler c1 w)"

definition GET_profile :: "Lib \<Rightarrow> JWTService \<Rightarrow> Context \<Rightarrow> World \<Rightarrow> Response \<times> World" where
  "GET_profile L js = protectedAPI L js ProfileHandler"

definition GET_users :: "Lib \<Rightarrow> JWTService \<Rightarrow> Context \<Rightarrow> World \<Rightarrow> Response \<times> World" where
  "GET_users L js = users_group L js GetAllUsersHandler"

definition GET_users_id :: "Lib \<Rightarrow> JWTService \<Rightarrow> Context \<Rightarrow> World \<Rightarrow> Response \<times> World" where
  "GET_users_id L js = users_group L js GetUserByIDHandler"

definition PUT_users_id ::
  "Lib \<Rightarrow> JWTService \<Rightarrow> UpdateUserRequest option \<Rightarrow> Context \<Rightarrow> World \<Rightarrow> Response \<times> World" where
  "PUT_users_id L js body = users_group L js (UpdateUserHandler body)"

definition DELETE_users_id :: "Lib \<Rightarrow> JWTService \<Rightarrow> Context \<Rightarrow> World \<Rightarrow> Response \<times> World" where
  "DELETE_users_id L js = users_group L js DeleteUserHandler"

definition POST_users_id_roles ::
  "Lib \<Rightarrow> JWTService \<Rightarrow> AssignRoleRequest option \<Rightarrow> Context \<Rightarrow> World \<Rightarrow> Response \<times> World" where
  "POST_users_id_roles L js body = users_group L js (AssignRoleHandler L body)"

definition DELETE_users_id_roles ::
  "Lib \<Rightarrow> JWTService \<Rightarrow> RemoveRoleRequest option \<Rightarrow> Context \<Rightarrow> World \<Rightarrow> Response \<times> World" where
  "DELETE_users_id_roles L js body = users_group L js (RemoveRoleHandler L body)"

section \<open>Serialisation (the json tags of the structs)\<close>

datatype json =
    JNull
  | JBool bool
  | JNumber int
  | JString string
  | JToken TokenString
  | JArray "json list"
  | JObject "(string \<times> json) list"

text \<open>
  \<open>Role\<close> and \<open>User\<close> as \<^verbatim>\<open>encoding/json\<close> writes them: one member per field, under
  the name of its tag; the fields tagged \<^verbatim>\<open>json:"-"\<close> (\<open>Password\<close>, \<open>DeletedAt\<close>)
  are skipped, and a nil slice is written as \<^verbatim>\<open>null\<close>.
\<close>

definition Role_json :: "Role \<Rightarrow> json" where
  "Role_json r =
     JObject [(''id'', JNumber (int (Role_ID r))),
              (''name'', JString (Role_Name r)),
              (''created_at'', JNumber (Role_CreatedAt r)),
              (''updated_at'', JNumber (Role_UpdatedAt r))]"

definition User_json :: "User \<Rightarrow> json" where
  "User_json u =
     JObject [(''id'', JNumber (int (ID u))),
              (''email'', JString (Email u)),
              (''name'', JString (Name u)),
              (''tel'', JString (Tel u)),
              (''age'', JNumber (Age u)),
              (''address'', JString (Address u)),
              (''city'', JString (City u)),
              (''country'', JString (Country u)),
              (''gender'', JString (Gender u)),
              (''email_verified'', JBool (EmailVerified u)),
              (''roles'', (case Roles u of
                             None \<Rightarrow> JNull
                           | Some rs \<Rightarrow> JArray (map Role_json rs))),
              (''created_at'', JNumber (CreatedAt u)),
              (''updated_at'', JNumber (UpdatedAt u))]"

fun Data_json :: "Data \<Rightarrow> json" where
  "Data_json (Data_User u) = User_json u"
| "Data_json (Data_Users us) = JArray (map User_json us)"
| "Data_json (Data_UserTokens u p) =
     JObject [(''access_token'', JToken (AccessToken p)),
              (''refresh_token'', JToken (RefreshToken p)),
              (''user'', User_json u)]"
| "Data_json (Data_Tokens p) =
     JObject [(''access_token'', JToken (AccessToken p)),
              (''refresh_token'', JToken (RefreshToken p))]"
| "Data_json (Data_Message m) = JObject [(''message'', JString m)]"

fun Payload_json :: "Payload \<Rightarrow> json" where
  "Payload_json (ErrorResponse e) = JObject [(''error'', JString e)]"
| "Payload_json (SuccessResponse d) = JObject [(''data'', Data_json d)]"

text \<open>The body written for a response; a panic is answered without a body.\<close>

fun response_body :: "Response \<Rightarrow> json" where
  "response_body (JSON code p) = Payload_json p"
| "response_body Panic = JNull"

text \<open>The names of all members of a JSON value, at every depth.\<close>

fun member_names :: "json \<Rightarrow> string list" where
  "member_names (JArray xs) = concat (map member_names xs)"
| "member_names (JObject kvs) = concat (map (\<lambda>kv. fst kv # member_names (snd kv)) kvs)"
| "member_names _ = []"

section \<open>A small instance\<close>

text \<open>
  Stand-ins for the library primitives, on which the definitions can be run: MACs that
  write the key and the size of the hash in front of the signed email, a password hash
  that marks the password, and the two string functions on ASCII text.
\<close>

definition ascii_ToLower :: "string \<Rightarrow> string" where
  "ascii_ToLower s =
     map (\<lambda>ch. let n = (of_char ch :: nat) in if 65 \<le> n \<and> n \<le> 90 then char_of (n + 32) else ch) s"

definition ascii_TrimSpace :: "string \<Rightarrow> string" where
  "ascii_TrimSpace s =
     rev (dropWhile (\<lambda>ch. ch = CHR '' '') (rev (dropWhile (\<lambda>ch. ch = CHR '' '') s)))"

definition L0 :: Lib where
  "L0 = \<lparr>HMAC_SHA256 = (\<lambda>key signing_input. key @ ''/256/'' @ Claims_Email (snd signing_input)),
         HMAC_SHA384 = (\<lambda>key signing_input. key @ ''/384/'' @ Claims_Email (snd signing_input)),
         HMAC_SHA512 = (\<lambda>key signing_input. key @ ''/512/'' @ Claims_Email (snd signing_input)),
         GenerateFromPassword = (\<lambda>p. Some (''$2a$'' @ p)),
         CompareHashAndPassword = (\<lambda>h p. h = ''$2a$'' @ p),
         ToLower = ascii_ToLower,
         TrimSpace = ascii_TrimSpace\<rparr>"

definition J0 :: JWTService where
  "J0 = \<lparr>secretKey = ''secret''\<rparr>"

definition role_user :: Role where
  "role_user = \<lparr>Role_ID = 1, Role_Name = ''user'', Role_CreatedAt = 0, Role_UpdatedAt = 0\<rparr>"

definition role_admin :: Role where
  "role_admin = \<lparr>Role_ID = 2, Role_Name = ''admin'', Role_CreatedAt = 0, Role_UpdatedAt = 0\<rparr>"

definition row :: "nat \<Rightarrow> string \<Rightarrow> string \<Rightarrow> int option \<Rightarrow> User" where
  "row i email name deleted =
     \<lparr>ID = i, Email = email, Password = ''$2a$pass1234'', Name = name, Tel = ''070'', Age = 30,
      Address = ''1 Main St'', City = ''Skopje'', Country = ''MK'', Gender = ''x'',
      EmailVerified = False, Roles = None, CreatedAt = 0, UpdatedAt = 0, DeletedAt = deleted\<rparr>"

text \<open>
  Four identities: 1 holds \<open>user\<close> and \<open>admin\<close>, 5 and 53 hold \<open>user\<close>, 7 held
  \<open>user\<close> and is soft-deleted.
\<close>

definition W0 :: World where
  "W0 = \<lparr>users = [row 1 ''a@x.com'' ''Ann'' None, row 5 ''b@x.com'' ''Bob'' None,
                  row 7 ''d@x.com'' ''Dan'' (Some 1699999999000000000),
                  row 53 ''c@x.com'' ''Cy'' None],
         roles = [role_user, role_admin],
         user_roles = [(1, 1), (1, 2), (5, 1), (7, 1), (53, 1)],
         next_user_id = 54,
         next_role_id = 3,
         faults = [],
         now = 1700000000999999999,
         ticks = [],
         raw_First = (\<lambda>text rows. Inl ErrDatabase)\<rparr>"

text \<open>
  The pair issued to a loaded identity when the two clock readings are \<open>t1\<close> and
  \<open>t2\<close>, the access token issued at the time of \<open>W0\<close>, and the claims of a token.
\<close>

definition pair_at :: "User \<Rightarrow> int \<Rightarrow> int \<Rightarrow> TokenPair" where
  "pair_at u t1 t2 =
     (case GenerateTokenPair L0 J0 u t1 t2 of
        Inr p \<Rightarrow> p
      | Inl _ \<Rightarrow> \<lparr>AccessToken = Malformed [], RefreshToken = Malformed []\<rparr>)"

definition token_of :: "User \<Rightarrow> TokenString" where
  "token_of u = AccessToken (pair_at u (now W0) (now W0))"

fun claims_of :: "TokenString \<Rightarrow> CustomClaims option" where
  "claims_of (Malformed s) = None"
| "claims_of (Compact h c sig) = Some c"

definition request_of :: "User \<Rightarrow> string \<Rightarrow> Context" where
  "request_of u i =
     \<lparr>Authorization = BearerToken (token_of u), Param_id = i, Keys = (\<lambda>k. None)\<rparr>"

definition bob :: User where
  "bob = (row 5 ''b@x.com'' ''Bob'' None)\<lparr>Roles := Some [role_user]\<rparr>"

definition ann :: User where
  "ann = (row 1 ''a@x.com'' ''Ann'' None)\<lparr>Roles := Some [role_user, role_admin]\<rparr>"

definition cy :: User where
  "cy = (row 53 ''c@x.com'' ''Cy'' None)\<lparr>Roles := Some [role_user]\<rparr>"

definition dan :: User where
  "dan = (row 7 ''d@x.com'' ''Dan'' None)\<lparr>Roles := Some [role_user]\<rparr>"

text \<open>The context of a request once \<open>AuthMiddleware\<close> has attached the identity.\<close>

definition loaded :: "User \<Rightarrow> string \<Rightarrow> Context" where
  "loaded u i = (request_of u i)\<lparr>Keys := [''user'' \<mapsto> UserPtr u]\<rparr>"

text \<open>Three headers and a claim set whose expiry lies before the time of \<open>W0\<close>.\<close>

definition HS256_header :: JOSE_Header where
  "HS256_header = \<lparr>Header_typ = Some ''JWT'', Header_alg = Some ''HS256''\<rparr>"

definition HS384_header :: JOSE_Header where
  "HS384_header = \<lparr>Header_typ = Some ''JWT'', Header_alg = Some ''HS384''\<rparr>"

definition none_header :: JOSE_Header where
  "none_header = \<lparr>Header_typ = Some ''JWT'', Header_alg = Some ''none''\<rparr>"

definition old_claims :: CustomClaims where
  "old_claims = \<lparr>UserID = 1, Claims_Email = ''a@x.com'', Claims_Name = ''Ann'',
                  Claims_Roles = [''user'', ''admin''], Issuer = ''um-api'',
                  ExpiresAt = Some 1700000000000000000,
                  NotBefore = Some 1699999100000000000,
                  IssuedAt = Some 1699999100000000000\<rparr>"

text \<open>
  Two tokens with these claims under the HS256 header: one with the MAC under the secret
  of \<open>J0\<close>, which has expired at the time of \<open>W0\<close>, and one with a signature
  that is not that MAC.
\<close>

definition expired_token :: TokenString where
  "expired_token =
     Compact HS256_header old_claims (HMAC_SHA256 L0 (secretKey J0) (HS256_header, old_claims))"

definition forged_token :: TokenString where
  "forged_token = Compact HS256_header old_claims ''forged''"

text \<open>
  A path parameter that is no number but a condition in SQL, whose second
  \<^verbatim>\<open>SELECT\<close> makes up a row with the key of identity 5, and a database that
  answers the query under this condition with that row.
\<close>

definition crafted_id :: string where
  "crafted_id =
     ''0=1 UNION SELECT 5,'evil@x.com','x','Bob','070',30,'1 Main St','Skopje','MK','x',false,0,0,NULL --''"

definition made_up_row :: User where
  "made_up_row = (row 5 ''evil@x.com'' ''Bob'' None)\<lparr>Password := ''x''\<rparr>"

definition W1 :: World where
  "W1 = W0\<lparr>raw_First := (\<lambda>text rows. if text = crafted_id then Inr made_up_row
                                       else Inl ErrDatabase)\<rparr>"

definition rename :: "string \<Rightarrow> UpdateUserRequest" where
  "rename n = \<lparr>upd_Name = n, upd_Tel = [], upd_Age = 0, upd_Address = [], upd_City = [],
               upd_Country = [], upd_Gender = []\<rparr>"

section \<open>Properties of the token service\<close>

lemma NewNumericDate_add_seconds: "NewNumericDate (t + k * Second) = NewNumericDate t + k * Second"
  by (simp add: NewNumericDate_def)

lemma NewNumericDate_le: "NewNumericDate t \<le> t"
  by (simp add: NewNumericDate_def Second_def)

lemma NewNumericDate_gt: "t - Second < NewNumericDate t"
  by (simp add: NewNumericDate_def Second_def)

lemma Validate_Nil_iff:
  "Validate t c = [] \<longleftrightarrow>
     (case ExpiresAt c of None \<Rightarrow> True | Some e \<Rightarrow> t < e) \<and>
     (case NotBefore c of None \<Rightarrow> True | Some n \<Rightarrow> n \<le> t)"
  by (auto simp: Validate_def split: option.splits)

lemma ValidateToken_Inr_iff:
  "ValidateToken L js t tok = Inr c \<longleftrightarrow>
     (\<exists>h sig. tok = Compact h c sig \<and> Header_alg h = Some ''HS256'' \<and>
        sig = HMAC_SHA256 L (secretKey js) (h, c) \<and> Validate t c = [])"
  apply (cases tok)
   apply (simp add: ValidateToken_def ParseWithClaims_def)
  apply (auto simp: ValidateToken_def ParseWithClaims_def GetSigningMethod_def Verify_def
      split: option.splits sum.splits list.splits if_splits SigningMethod.splits)
  done

lemma ParseWithClaims_Valid:
  "ParseWithClaims L tok keyFunc t = Inr tk \<Longrightarrow> Token_Valid tk"
  by (auto simp: ParseWithClaims_def split: TokenString.splits option.splits sum.splits list.splits if_splits)

lemma ValidateToken_Inl:
  "ValidateToken L js t tok = Inl e \<Longrightarrow> \<exists>j. e = FailedToParseToken j"
  by (auto simp: ValidateToken_def split: sum.splits if_splits dest: ParseWithClaims_Valid)

lemma generateToken_eq:
  "generateToken L js u rs d t =
     Inr (Compact \<lparr>Header_typ = Some ''JWT'', Header_alg = Some ''HS256''\<rparr>
            \<lparr>UserID = ID u, Claims_Email = Email u, Claims_Name = Name u, Claims_Roles = rs,
             Issuer = ''um-api'', ExpiresAt = Some (NewNumericDate (t + d)),
             NotBefore = Some (NewNumericDate t), IssuedAt = Some (NewNumericDate t)\<rparr>
            (HMAC_SHA256 L (secretKey js)
               (\<lparr>Header_typ = Some ''JWT'', Header_alg = Some ''HS256''\<rparr>,
                \<lparr>UserID = ID u, Claims_Email = Email u, Claims_Name = Name u, Claims_Roles = rs,
                 Issuer = ''um-api'', ExpiresAt = Some (NewNumericDate (t + d)),
                 NotBefore = Some (NewNumericDate t), IssuedAt = Some (NewNumericDate t)\<rparr>)))"
  by (simp add: generateToken_def SignedString_def Let_def)

lemma GenerateTokenPair_eq:
  "GenerateTokenPair L js u t1 t2 =
     Inr \<lparr>AccessToken =
            Compact \<lparr>Header_typ = Some ''JWT'', Header_alg = Some ''HS256''\<rparr>
              \<lparr>UserID = ID u, Claims_Email = Email u, Claims_Name = Name u,
               Claims_Roles = map Role_Name (slice (Roles u)), Issuer = ''um-api'',
               ExpiresAt = Some (NewNumericDate (t1 + 15 * Minute)),
               NotBefore = Some (NewNumericDate t1), IssuedAt = Some (NewNumericDate t1)\<rparr>
              (HMAC_SHA256 L (secretKey js)
                 (\<lparr>Header_typ = Some ''JWT'', Header_alg = Some ''HS256''\<rparr>,
                  \<lparr>UserID = ID u, Claims_Email = Email u, Claims_Name = Name u,
                   Claims_Roles = map Role_Name (slice (Roles u)), Issuer = ''um-api'',
                   ExpiresAt = Some (NewNumericDate (t1 + 15 * Minute)),
                   NotBefore = Some (NewNumericDate t1), IssuedAt = Some (NewNumericDate t1)\<rparr>)),
          RefreshToken =
            Compact \<lparr>Header_typ = Some ''JWT'', Header_alg = Some ''HS256''\<rparr>
              \<lparr>UserID = ID u, Claims_Email = Email u, Claims_Name = Name u,
               Claims_Roles = map Role_Name (slice (Roles u)), Issuer = ''um-api'',
               ExpiresAt = Some (NewNumericDate (t2 + 7 * 24 * Hour)),
               NotBefore = Some (NewNumericDate t2), IssuedAt = Some (NewNumericDate t2)\<rparr>
              (HMAC_SHA256 L (secretKey js)
                 (\<lparr>Header_typ = Some ''JWT'', Header_alg = Some ''HS256''\<rparr>,
                  \<lparr>UserID = ID u, Claims_Email = Email u, Claims_Name = Name u,
                   Claims_Roles = map Role_Name (slice (Roles u)), Issuer = ''um-api'',
                   ExpiresAt = Some (NewNumericDate (t2 + 7 * 24 * Hour)),
                   NotBefore = Some (NewNumericDate t2), IssuedAt = Some (NewNumericDate t2)\<rparr>))\<rparr>"
  unfolding GenerateTokenPair_def generateToken_eq Let_def by simp

lemma validate_issued:
  assumes "generateToken L js u rs d t1 = Inr tok" and "t1 \<le> t" and "t < NewNumericDate (t1 + d)"
  shows "\<exists>c. ValidateToken L js t tok = Inr c \<and> UserID c = ID u \<and> Claims_Roles c = rs"
proof -
  have "NewNumericDate t1 \<le> t" using NewNumericDate_le [of t1] assms(2) by linarith
  with assms show ?thesis
    by (auto simp: generateToken_eq ValidateToken_Inr_iff Validate_Nil_iff)
qed

lemma trunc_15: "NewNumericDate (t + 15 * Minute) = NewNumericDate t + 15 * Minute"
  using NewNumericDate_add_seconds [of t 900] by (simp add: Minute_def)

lemma trunc_7d: "NewNumericDate (t + 7 * 24 * Hour) = NewNumericDate t + 7 * 24 * Hour"
  using NewNumericDate_add_seconds [of t 604800] by (simp add: Minute_def Hour_def)

lemma issuance_in_window: "t < NewNumericDate (t + 15 * Minute)"
  unfolding trunc_15 using NewNumericDate_gt [of t] by (simp add: Minute_def Second_def)

lemma pair_at_eq: "GenerateTokenPair L0 J0 u t1 t2 = Inr (pair_at u t1 t2)"
  by (simp add: pair_at_def GenerateTokenPair_eq)

lemma W0_window: "now W0 \<le> now W0 \<and> now W0 < NewNumericDate (now W0 + 15 * Minute)"
  by (simp add: issuance_in_window)

section \<open>Properties of the middleware\<close>

lemma time_Now_fst: "fst (time_Now w) = now w"
  by (simp add: time_Now_def split: list.splits)

lemma ValidateToken_cause:
  "ValidateToken L js t (Compact h c sig) =
     (if Header_alg h \<noteq> Some ''HS256'' then Inl (FailedToParseToken ErrTokenUnverifiable)
      else if sig \<noteq> HMAC_SHA256 L (secretKey js) (h, c) then
        Inl (FailedToParseToken ErrTokenSignatureInvalid)
      else if Validate t c \<noteq> [] then
        Inl (FailedToParseToken (ErrTokenInvalidClaims (Validate t c)))
      else Inr c)"
  by (auto simp: ValidateToken_def ParseWithClaims_def GetSigningMethod_def Verify_def
      split: option.splits sum.splits list.splits SigningMethod.splits)

text \<open>
  The check of the key function is what keeps a token out that declares HS384 and carries
  the HS384 MAC under the same secret: a key function without the check would let it in.
\<close>

lemma key_function_refuses_HS384:
  "ValidateToken L js t
     (Compact HS384_header c (HMAC_SHA384 L (secretKey js) (HS384_header, c))) =
     Inl (FailedToParseToken ErrTokenUnverifiable)"
  by (simp add: ValidateToken_cause HS384_header_def)

lemma unchecked_key_function_accepts_HS384:
  "Validate t c = [] \<Longrightarrow>
     ParseWithClaims L (Compact HS384_header c (HMAC_SHA384 L (secretKey js) (HS384_header, c)))
       (\<lambda>m. Inr (secretKey js)) t =
     Inr \<lparr>Token_Header = HS384_header, Token_Claims = c, Token_Valid = True\<rparr>"
  by (simp add: ParseWithClaims_def GetSigningMethod_def Verify_def HS384_header_def)

lemma AuthMiddleware_rejected:
  assumes "bearer_token ctx = Inr tok" and "ValidateToken L js (now w) tok = Inl e"
  shows "fst (AuthMiddleware L js ctx w) =
           Abort (JSON StatusUnauthorized (ErrorResponse ''Invalid or expired token''))"
  using assms time_Now_fst [of w]
  by (auto simp: AuthMiddleware_def split: prod.splits)

lemma RefreshHandler_rejected:
  assumes "ValidateToken L (jwtService ah) (now w) (refresh_RefreshToken req) = Inl e"
  shows "fst (RefreshHandler L ah (Some req) ctx w) =
           JSON StatusUnauthorized (ErrorResponse ''Invalid refresh token'')"
  using assms time_Now_fst [of w]
  by (auto simp: RefreshHandler_def ValidateRefreshToken_def split: prod.splits)

lemma allowed_loop_iff: "allowed_loop n as \<longleftrightarrow> n \<in> set as"
  by (induction as) auto

lemma hasRole_iff: "hasRole rs as \<longleftrightarrow> set (map Role_Name rs) \<inter> set as \<noteq> {}"
  by (induction rs) (auto simp: allowed_loop_iff)

lemma isAdmin_iff: "isAdmin rs \<longleftrightarrow> ''admin'' \<in> set (map Role_Name rs)"
  by (induction rs) auto

lemma next_fault_fields [simp]:
  "users (snd (next_fault w)) = users w"
  "roles (snd (next_fault w)) = roles w"
  "user_roles (snd (next_fault w)) = user_roles w"
  "next_user_id (snd (next_fault w)) = next_user_id w"
  "next_role_id (snd (next_fault w)) = next_role_id w"
  "now (snd (next_fault w)) = now w"
  "ticks (snd (next_fault w)) = ticks w"
  by (simp_all add: next_fault_def split: list.splits)

lemma time_Now_fields [simp]:
  "users (snd (time_Now w)) = users w"
  "roles (snd (time_Now w)) = roles w"
  "user_roles (snd (time_Now w)) = user_roles w"
  "next_user_id (snd (time_Now w)) = next_user_id w"
  "next_role_id (snd (time_Now w)) = next_role_id w"
  "faults (snd (time_Now w)) = faults w"
  by (simp_all add: time_Now_def split: list.splits)

lemma next_fault_time_Now [simp]: "fst (next_fault (snd (time_Now w))) = fst (next_fault w)"
  by (simp add: next_fault_def split: list.splits)

lemma find_Some_holds: "find P xs = Some x \<Longrightarrow> P x \<and> x \<in> set xs"
  by (induction xs) (auto split: if_splits)

lemma find_None_live:
  "list_all (\<lambda>u. ID u = i \<longrightarrow> DeletedAt u \<noteq> None) us \<Longrightarrow>
     find (\<lambda>u. ID u = i \<and> DeletedAt u = None) us = None"
  by (induction us) auto

lemma First_id_fault:
  "fst (next_fault w) \<Longrightarrow> fst (First_id p i w) = Inl ErrDatabase"
  by (simp add: First_id_def Let_def split_beta)

lemma First_id_missing:
  "\<not> fst (next_fault w) \<Longrightarrow> list_all (\<lambda>u. ID u = i \<longrightarrow> DeletedAt u \<noteq> None) (users w) \<Longrightarrow>
     fst (First_id p i w) = Inl ErrRecordNotFound"
  using find_None_live [of i "users w"]
  by (simp add: First_id_def Let_def split_beta)

lemma AuthMiddleware_validated:
  assumes "bearer_token c = Inr tok" and "ValidateToken L js (now w) tok = Inr claims"
  shows "fst (AuthMiddleware L js c w) =
           (case fst (First_id True (UserID claims) (snd (time_Now w))) of
              Inl ErrRecordNotFound \<Rightarrow>
                Abort (JSON StatusUnauthorized (ErrorResponse ''User not found''))
            | Inl ErrDatabase \<Rightarrow>
                Abort (JSON StatusInternalServerError (ErrorResponse ''Database error''))
            | Inr user \<Rightarrow>
                Next (c\<lparr>Keys := (Keys c)(''user'' \<mapsto> UserPtr user,
                                           ''claims'' \<mapsto> ClaimsPtr claims)\<rparr>))"
  using assms time_Now_fst [of w]
  by (auto simp: AuthMiddleware_def split: prod.splits sum.splits gorm_error.splits)

lemma Atoi_First_param_ID:
  "First_param p s w = (Inr u, w1) \<Longrightarrow> Atoi s = Some k \<Longrightarrow> int (ID u) = k"
  by (auto simp: First_param_def Let_def split_beta load_def preload_Roles_def
      split: if_splits option.splits dest: find_Some_holds)

lemma Delete_User_users:
  "Delete_User u w = (Inr x, w') \<Longrightarrow>
     list_all (\<lambda>r. ID r = ID u \<longrightarrow> DeletedAt r \<noteq> None) (users w')"
  by (auto simp: Delete_User_def Let_def split_beta list_all_iff split: if_splits)

lemma DeleteUserHandler_OK:
  assumes "status (fst (DeleteUserHandler cd w0)) = StatusOK"
    and "Atoi (Param_id cd) = Some (int i)"
  shows "list_all (\<lambda>r. ID r = i \<longrightarrow> DeletedAt r \<noteq> None) (users (snd (DeleteUserHandler cd w0)))"
proof -
  obtain r1 w1 where f: "First_param False (Param_id cd) w0 = (r1, w1)" by force
  show ?thesis
  proof (cases r1)
    case (Inl e)
    with f assms(1) show ?thesis
      by (cases e) (simp_all add: DeleteUserHandler_def)
  next
    case (Inr u)
    obtain r2 w2 where d: "Delete_User u w1 = (r2, w2)" by force
    from Atoi_First_param_ID [OF f [unfolded Inr] assms(2)] have i: "ID u = i" by simp
    show ?thesis
    proof (cases r2)
      case (Inl e)
      with f Inr d assms(1) show ?thesis by (simp add: DeleteUserHandler_def)
    next
      case (Inr x)
      with Delete_User_users [OF d [unfolded Inr]] f \<open>r1 = Inr u\<close> d i show ?thesis
        by (simp add: DeleteUserHandler_def)
    qed
  qed
qed

section \<open>Running the instance\<close>

lemmas instance_defs =
  L0_def J0_def W0_def row_def role_user_def role_admin_def bob_def ann_def cy_def dan_def
  request_of_def loaded_def token_of_def pair_at_def rename_def
  HS256_header_def HS384_header_def none_header_def old_claims_def
  expired_token_def forged_token_def crafted_id_def made_up_row_def W1_def
  ascii_ToLower_def ascii_TrimSpace_def

lemmas token_defs =
  GenerateTokenPair_eq ValidateToken_def ValidateRefreshToken_def ParseWithClaims_def
  GetSigningMethod_def Verify_def Validate_def NewNumericDate_def Minute_def Second_def Hour_def

lemmas gorm_defs =
  next_fault_def time_Now_def UnixMilli_def preload_Roles_def load_def
  First_id_def First_param_def First_email_def Find_all_def FirstOrCreate_Role_def
  insert_User_def Create_User_def upsert_User_def Save_User_def Delete_User_def
  Append_Role_def Delete_Role_def slice_def Atoi_def digit_def Let_def

lemmas http_defs =
  HasPrefix_def bearerScheme_def bearer_token_def AuthMiddleware_def RoleMiddleware_def
  protectedAPI_def users_group_def

section \<open>Properties of the update handler\<close>

lemma AuthMiddleware_Next:
  "AuthMiddleware L js c w = (Next c1, w1) \<Longrightarrow>
     \<exists>u cl. c1 = c\<lparr>Keys := (Keys c)(''user'' \<mapsto> UserPtr u, ''claims'' \<mapsto> ClaimsPtr cl)\<rparr>"
  by (auto simp: AuthMiddleware_def split: sum.splits prod.splits gorm_error.splits)

lemma UpdateUserHandler_admin:
  "Keys c ''user'' = Some (UserPtr u) \<Longrightarrow> ''admin'' \<in> set (map Role_Name (slice (Roles u))) \<Longrightarrow>
     status (fst (UpdateUserHandler body c w)) \<noteq> StatusForbidden"
  by (auto simp: UpdateUserHandler_def isAdmin_iff Let_def
      split: option.splits sum.splits prod.splits gorm_error.splits)

text \<open>
  The self check of \<open>UpdateUserHandler\<close> compares the path parameter with the
  character whose code point is the caller's id, not with the decimal text of the id. On
  its own the handler therefore refuses identity 5 the update of record 5, and lets
  identity 53 (the code point of the digit 5) update record 5 without the admin role.
\<close>

lemma self_check_denies_own_record:
  "fst (UpdateUserHandler (Some (rename ''Bobby'')) (loaded bob ''5'') W0) =
     JSON StatusForbidden (ErrorResponse ''Forbidden'')"
  by (simp add: UpdateUserHandler_def instance_defs slice_def string_of_rune_def rune_def
      char_of_def)

lemma self_check_passes_other_record:
  "status (fst (UpdateUserHandler (Some (rename ''Bobby'')) (loaded cy ''5'') W0)) = StatusOK \<and>
   map Name (users (snd (UpdateUserHandler (Some (rename ''Bobby'')) (loaded cy ''5'') W0))) =
     [''Ann'', ''Bobby'', ''Dan'', ''Cy'']"
  by (simp add: UpdateUserHandler_def update_fields_def instance_defs gorm_defs
      string_of_rune_def rune_def char_of_def)

lemma update_fields_kept [simp]:
  "ID (update_fields req u) = ID u"
  "Email (update_fields req u) = Email u"
  "Password (update_fields req u) = Password u"
  "Roles (update_fields req u) = Roles u"
  "DeletedAt (update_fields req u) = DeletedAt u"
  by (simp_all add: update_fields_def)

lemma update_fields_set [simp]:
  "Name (update_fields req u) = (if upd_Name req = [] then Name u else upd_Name req)"
  "Tel (update_fields req u) = (if upd_Tel req = [] then Tel u else upd_Tel req)"
  "Age (update_fields req u) = (if upd_Age req = 0 then Age u else upd_Age req)"
  "Address (update_fields req u) = (if upd_Address req = [] then Address u else upd_Address req)"
  "City (update_fields req u) = (if upd_City req = [] then City u else upd_City req)"
  "Country (update_fields req u) = (if upd_Country req = [] then Country u else upd_Country req)"
  "Gender (update_fields req u) = (if upd_Gender req = [] then Gender u else upd_Gender req)"
  by (simp_all add: update_fields_def)

lemma First_param_tables [simp]:
  "users (snd (First_param p s w)) = users w"
  "roles (snd (First_param p s w)) = roles w"
  "user_roles (snd (First_param p s w)) = user_roles w"
  by (simp_all add: First_param_def Let_def split_beta split: option.splits sum.splits)


lemma load_fields [simp]:
  "ID (load p w r) = ID r" "Email (load p w r) = Email r" "Password (load p w r) = Password r"
  "Name (load p w r) = Name r" "Tel (load p w r) = Tel r" "Age (load p w r) = Age r"
  "Address (load p w r) = Address r" "City (load p w r) = City r"
  "Country (load p w r) = Country r" "Gender (load p w r) = Gender r"
  "DeletedAt (load p w r) = DeletedAt r"
  by (simp_all add: load_def preload_Roles_def)







lemma load_False_Roles [simp]: "Roles (load False w u) = None"
  by (simp add: load_def)


section \<open>Properties of registration and of the role handlers\<close>

lemma find_distinct:
  "distinct (map f xs) \<Longrightarrow> x \<in> set xs \<Longrightarrow> find (\<lambda>y. f y = f x) xs = Some x"
  by (induction xs) (auto simp: image_iff)

lemma FirstOrCreate_Role_found:
  assumes "\<not> fst (next_fault w)" and "n \<noteq> []" and "r \<in> set (roles w)" and "Role_Name r = n"
    and "distinct (map Role_Name (roles w))"
  shows "FirstOrCreate_Role n w = (Inr r, snd (next_fault w))"
proof -
  have "find (\<lambda>y. Role_Name y = Role_Name r) (roles w) = Some r"
    using assms(3,5) by (rule find_distinct [rotated])
  then show ?thesis using assms(1,2,4)
    by (simp add: FirstOrCreate_Role_def Let_def split_beta)
qed

lemma First_param_roles:
  assumes "First_param True s w = (Inr u, w1)"
  shows "set (slice (Roles u)) \<subseteq> set (roles w)"
proof -
  from assms obtain x where "u = load True w1 x"
    by (auto simp: First_param_def Let_def split_beta split: if_splits option.splits sum.splits)
  moreover have "roles w1 = roles w" using First_param_tables(2) [of True s w] assms by simp
  ultimately show ?thesis by (auto simp: load_def preload_Roles_def slice_def)
qed

lemma snd_First_param_tables:
  assumes "First_param p s w = (r, w1)"
  shows "users w1 = users w \<and> roles w1 = roles w \<and> user_roles w1 = user_roles w"
  using First_param_tables [of p s w] assms by simp

lemma AssignRoleHandler_conflict:
  assumes f: "First_param True (Param_id c) w = (Inr user, w1)"
    and nf: "\<not> fst (next_fault w1)"
    and d: "distinct (map Role_Name (roles w))"
    and ne: "ToLower L (TrimSpace L (assign_RoleName req)) \<noteq> []"
    and h: "ToLower L (TrimSpace L (assign_RoleName req)) \<in> set (map Role_Name (slice (Roles user)))"
  shows "AssignRoleHandler L (Some req) c w =
           (JSON StatusBadRequest (ErrorResponse ''User already has this role''), snd (next_fault w1))"
proof -
  let ?n = "ToLower L (TrimSpace L (assign_RoleName req))"
  from h obtain r where r: "r \<in> set (slice (Roles user))" "Role_Name r = ?n" by auto
  have t: "roles w1 = roles w" using snd_First_param_tables [OF f] by simp
  have "r \<in> set (roles w1)" using First_param_roles [OF f] r(1) t by auto
  from FirstOrCreate_Role_found [OF nf ne this r(2)] d t
  have fc: "FirstOrCreate_Role ?n w1 = (Inr r, snd (next_fault w1))" by simp
  have "list_ex (\<lambda>x. Role_ID x = Role_ID r) (slice (Roles user))"
    using r(1) by (auto simp: list_ex_iff)
  then show ?thesis
    by (simp add: AssignRoleHandler_def Let_def f fc)
qed

lemma RemoveRoleHandler_conflict:
  assumes f: "First_param True (Param_id c) w = (Inr user, w1)"
    and h: "ToLower L (TrimSpace L (remove_RoleName req)) \<notin> set (map Role_Name (slice (Roles user)))"
  shows "RemoveRoleHandler L (Some req) c w =
           (JSON StatusBadRequest (ErrorResponse ''User doesn't have this role''), w1)"
proof -
  have "find (\<lambda>r. Role_Name r = ToLower L (TrimSpace L (remove_RoleName req))) (slice (Roles user)) = None"
    using h by (force simp: find_None_iff image_iff)
  then show ?thesis
    by (simp add: RemoveRoleHandler_def Let_def f)
qed

lemma RegisterHandler_conflict:
  assumes nf: "\<not> fst (next_fault w)"
    and h: "list_ex (\<lambda>u. Email u = reg_Email req \<and> DeletedAt u = None) (users w)"
  shows "RegisterHandler L ah (Some req) c w =
           (JSON StatusBadRequest (ErrorResponse ''User already exists''), snd (next_fault w))"
proof -
  from h obtain u where
    "find (\<lambda>u. Email u = reg_Email req \<and> DeletedAt u = None) (users w) = Some u"
    by (cases "find (\<lambda>u. Email u = reg_Email req \<and> DeletedAt u = None) (users w)")
       (auto simp: find_None_iff list_ex_iff)
  then have "\<exists>x. First_email False (reg_Email req) w = (Inr x, snd (next_fault w))"
    using nf by (simp add: First_email_def Let_def split_beta)
  then show ?thesis
    by (auto simp: RegisterHandler_def)
qed

section \<open>Properties of the serialisation\<close>

lemma member_names_Roles:
  "k \<notin> set [''id'', ''name'', ''created_at'', ''updated_at''] \<Longrightarrow>
     k \<notin> set (concat (map member_names (map Role_json rs)))"
  by (induction rs) (simp_all add: Role_json_def)

lemma member_names_User_json:
  assumes "k \<notin> set [''id'', ''email'', ''name'', ''tel'', ''age'', ''address'', ''city'',
                       ''country'', ''gender'', ''email_verified'', ''roles'', ''created_at'',
                       ''updated_at'']"
  shows "k \<notin> set (member_names (User_json u))"
proof (cases "Roles u")
  case None
  with assms show ?thesis by (simp add: User_json_def)
next
  case (Some rs)
  have "k \<notin> set (concat (map member_names (map Role_json rs)))"
    using assms by (intro member_names_Roles) simp
  with Some assms show ?thesis by (simp add: User_json_def)
qed

lemma member_names_Users:
  assumes "k \<notin> set [''id'', ''email'', ''name'', ''tel'', ''age'', ''address'', ''city'',
                       ''country'', ''gender'', ''email_verified'', ''roles'', ''created_at'',
                       ''updated_at'']"
  shows "k \<notin> set (concat (map member_names (map User_json us)))"
  using member_names_User_json [OF assms] by (induction us) simp_all

lemma member_names_response:
  assumes u: "k \<notin> set [''id'', ''email'', ''name'', ''tel'', ''age'', ''address'', ''city'',
                       ''country'', ''gender'', ''email_verified'', ''roles'', ''created_at'',
                       ''updated_at'']"
    and e: "k \<notin> set [''error'', ''data'', ''access_token'', ''refresh_token'', ''user'', ''message'']"
  shows "k \<notin> set (member_names (response_body r))"
proof (cases r)
  case (JSON code p)
  show ?thesis
  proof (cases p)
    case (ErrorResponse m)
    with JSON e show ?thesis by simp
  next
    case (SuccessResponse d)
    with JSON e member_names_User_json [OF u] member_names_Users [OF u] show ?thesis
      by (cases d) simp_all
  qed
next
  case Panic
  then show ?thesis by simp
qed

lemma no_password_member:
  "''password'' \<notin> set (member_names (response_body r))"
  by (rule member_names_response) simp_all

lemma no_Password_member:
  "''Password'' \<notin> set (member_names (response_body r))"
  by (rule member_names_response) simp_all

lemma User_json_Password: "User_json (u\<lparr>Password := p\<rparr>) = User_json u"
  by (simp add: User_json_def)

section \<open>The claims\<close>

text \<open>
  C2. \<open>ValidateRefreshToken\<close> returns, for every token string and every clock reading,
  exactly what \<open>ValidateToken\<close> returns; so the access token of an issued pair is
  accepted by the refresh validation as long as it has not expired.
\<close>

theorem validate_refresh_is_validate:
  "(\<forall>t tok. ValidateRefreshToken L js t tok = ValidateToken L js t tok) \<and>
   (\<forall>u t1 t2 t. t1 \<le> t \<and> t < NewNumericDate (t1 + 15 * Minute) \<longrightarrow>
      (\<exists>p c. GenerateTokenPair L js u t1 t2 = Inr p \<and>
             ValidateRefreshToken L js t (AccessToken p) = Inr c \<and> UserID c = ID u))"
proof (intro conjI allI impI)
  fix t tok
  show "ValidateRefreshToken L js t tok = ValidateToken L js t tok"
    by (simp add: ValidateRefreshToken_def)
next
  fix u t1 t2 t
  assume w: "t1 \<le> t \<and> t < NewNumericDate (t1 + 15 * Minute)"
  obtain a where a: "generateToken L js u (map Role_Name (slice (Roles u))) (15 * Minute) t1 = Inr a"
    by (simp add: generateToken_eq)
  obtain r where r: "generateToken L js u (map Role_Name (slice (Roles u))) (7 * 24 * Hour) t2 = Inr r"
    by (simp add: generateToken_eq)
  have p: "GenerateTokenPair L js u t1 t2 = Inr \<lparr>AccessToken = a, RefreshToken = r\<rparr>"
    unfolding GenerateTokenPair_def Let_def a using r by simp
  from validate_issued [OF a] w obtain c where
    "ValidateToken L js t a = Inr c" "UserID c = ID u" by blast
  then show "\<exists>p c. GenerateTokenPair L js u t1 t2 = Inr p \<and>
         ValidateRefreshToken L js t (AccessToken p) = Inr c \<and> UserID c = ID u"
    using p by (simp add: ValidateRefreshToken_def)
qed

theorem validate_refresh_is_validate_witness:
  "ValidateRefreshToken L0 J0 (now W0) (token_of bob) = ValidateToken L0 J0 (now W0) (token_of bob) \<and>
   now W0 \<le> now W0 \<and> now W0 < NewNumericDate (now W0 + 15 * Minute) \<and>
   (\<exists>c. ValidateRefreshToken L0 J0 (now W0) (token_of bob) = Inr c \<and> UserID c = 5)"
proof -
  note T = validate_refresh_is_validate [of L0 J0]
  from T have 1: "ValidateRefreshToken L0 J0 (now W0) (token_of bob) = ValidateToken L0 J0 (now W0) (token_of bob)"
    by blast
  from T W0_window obtain p c where
    "GenerateTokenPair L0 J0 bob (now W0) (now W0) = Inr p"
    "ValidateRefreshToken L0 J0 (now W0) (AccessToken p) = Inr c" "UserID c = ID bob"
    by blast
  then have "\<exists>c. ValidateRefreshToken L0 J0 (now W0) (token_of bob) = Inr c \<and> UserID c = 5"
    by (auto simp: pair_at_eq token_of_def bob_def row_def)
  with 1 W0_window show ?thesis by blast
qed

text \<open>
  C3. For every identity and every pair of clock readings at issuance, \<open>GenerateTokenPair\<close>
  returns a pair, and validating its access token at the moment of issuance, or at any
  later moment before the expiry, returns claims whose \<open>UserID\<close> is the identity's
  \<open>ID\<close> and whose roles are the names of the identity's roles, in their order.
\<close>

theorem issue_then_validate:
  "\<exists>p. GenerateTokenPair L js u t1 t2 = Inr p \<and>
     (\<exists>c. ValidateToken L js t1 (AccessToken p) = Inr c \<and> UserID c = ID u \<and>
          Claims_Roles c = map Role_Name (slice (Roles u))) \<and>
     (\<forall>t. t1 \<le> t \<and> t < NewNumericDate (t1 + 15 * Minute) \<longrightarrow>
          (\<exists>c. ValidateToken L js t (AccessToken p) = Inr c \<and> UserID c = ID u \<and>
               Claims_Roles c = map Role_Name (slice (Roles u))))"
proof -
  obtain a where a: "generateToken L js u (map Role_Name (slice (Roles u))) (15 * Minute) t1 = Inr a"
    by (simp add: generateToken_eq)
  obtain r where r: "generateToken L js u (map Role_Name (slice (Roles u))) (7 * 24 * Hour) t2 = Inr r"
    by (simp add: generateToken_eq)
  have p: "GenerateTokenPair L js u t1 t2 = Inr \<lparr>AccessToken = a, RefreshToken = r\<rparr>"
    unfolding GenerateTokenPair_def Let_def a using r by simp
  have win: "\<exists>c. ValidateToken L js t a = Inr c \<and> UserID c = ID u \<and>
               Claims_Roles c = map Role_Name (slice (Roles u))"
    if "t1 \<le> t \<and> t < NewNumericDate (t1 + 15 * Minute)" for t
    using validate_issued [OF a, of t] that by blast
  have now: "\<exists>c. ValidateToken L js t1 a = Inr c \<and> UserID c = ID u \<and>
               Claims_Roles c = map Role_Name (slice (Roles u))"
    using win [of t1] issuance_in_window [of t1] by simp
  show ?thesis using p win now by simp
qed

theorem issue_then_validate_witness:
  "now W0 \<le> now W0 + 60 * Second \<and> now W0 + 60 * Second < NewNumericDate (now W0 + 15 * Minute) \<and>
   (\<exists>c. ValidateToken L0 J0 (now W0 + 60 * Second) (token_of ann) = Inr c \<and> UserID c = 1 \<and>
        Claims_Roles c = [''user'', ''admin''])"
proof -
  have h: "now W0 \<le> now W0 + 60 * Second \<and> now W0 + 60 * Second < NewNumericDate (now W0 + 15 * Minute)"
    by (simp add: W0_def NewNumericDate_def Minute_def Second_def)
  from issue_then_validate [of L0 J0 ann "now W0" "now W0"] obtain p where
    p: "GenerateTokenPair L0 J0 ann (now W0) (now W0) = Inr p"
    and w: "\<forall>t. now W0 \<le> t \<and> t < NewNumericDate (now W0 + 15 * Minute) \<longrightarrow>
          (\<exists>c. ValidateToken L0 J0 t (AccessToken p) = Inr c \<and> UserID c = ID ann \<and>
               Claims_Roles c = map Role_Name (slice (Roles ann)))"
    by blast
  from p have "token_of ann = AccessToken p"
    by (simp add: pair_at_eq token_of_def)
  with w h have "\<exists>c. ValidateToken L0 J0 (now W0 + 60 * Second) (token_of ann) = Inr c \<and>
      UserID c = ID ann \<and> Claims_Roles c = map Role_Name (slice (Roles ann))"
    by simp
  then have "\<exists>c. ValidateToken L0 J0 (now W0 + 60 * Second) (token_of ann) = Inr c \<and> UserID c = 1 \<and>
        Claims_Roles c = [''user'', ''admin'']"
    by (simp add: ann_def row_def role_user_def role_admin_def slice_def)
  with h show ?thesis by blast
qed

text \<open>
  C7, as stated, fails: \<open>generateToken\<close> reads the clock once for each token and
  \<open>NewNumericDate\<close> drops the fraction of a second. With the readings 0.999999999 s
  and 1 s the access token is issued at 0 and the refresh token at 1 s, so the two claim
  sets differ in more than the expiry, and the issued-at of the access token is not its
  clock reading.
\<close>

theorem pair_dates_counterexample:
  "map_option IssuedAt (claims_of (AccessToken (pair_at bob 999999999 1000000000))) = Some (Some 0) \<and>
   map_option IssuedAt (claims_of (RefreshToken (pair_at bob 999999999 1000000000)))
     = Some (Some 1000000000) \<and>
   map_option NotBefore (claims_of (AccessToken (pair_at bob 999999999 1000000000))) = Some (Some 0) \<and>
   map_option NotBefore (claims_of (RefreshToken (pair_at bob 999999999 1000000000)))
     = Some (Some 1000000000)"
  by (simp add: pair_at_def GenerateTokenPair_eq NewNumericDate_def Second_def)

text \<open>
  C7, amended. Both tokens carry the same subject id, email, name, role names and the issuer
  \<open>um-api\<close>, under a header that declares HS256 and with the MAC of header and claims
  under the secret. Each token has not-before = issued-at = its own clock reading cut to
  whole seconds; the access token expires exactly 15 minutes after its issued-at, the
  refresh token exactly 7 days after its issued-at.
\<close>

theorem pair_claims:
  "GenerateTokenPair L js u t1 t2 =
     Inr \<lparr>AccessToken =
            Compact \<lparr>Header_typ = Some ''JWT'', Header_alg = Some ''HS256''\<rparr>
              \<lparr>UserID = ID u, Claims_Email = Email u, Claims_Name = Name u,
               Claims_Roles = map Role_Name (slice (Roles u)), Issuer = ''um-api'',
               ExpiresAt = Some (NewNumericDate t1 + 15 * Minute),
               NotBefore = Some (NewNumericDate t1), IssuedAt = Some (NewNumericDate t1)\<rparr>
              (HMAC_SHA256 L (secretKey js)
                 (\<lparr>Header_typ = Some ''JWT'', Header_alg = Some ''HS256''\<rparr>,
                  \<lparr>UserID = ID u, Claims_Email = Email u, Claims_Name = Name u,
                   Claims_Roles = map Role_Name (slice (Roles u)), Issuer = ''um-api'',
                   ExpiresAt = Some (NewNumericDate t1 + 15 * Minute),
                   NotBefore = Some (NewNumericDate t1), IssuedAt = Some (NewNumericDate t1)\<rparr>)),
          RefreshToken =
            Compact \<lparr>Header_typ = Some ''JWT'', Header_alg = Some ''HS256''\<rparr>
              \<lparr>UserID = ID u, Claims_Email = Email u, Claims_Name = Name u,
               Claims_Roles = map Role_Name (slice (Roles u)), Issuer = ''um-api'',
               ExpiresAt = Some (NewNumericDate t2 + 7 * 24 * Hour),
               NotBefore = Some (NewNumericDate t2), IssuedAt = Some (NewNumericDate t2)\<rparr>
              (HMAC_SHA256 L (secretKey js)
                 (\<lparr>Header_typ = Some ''JWT'', Header_alg = Some ''HS256''\<rparr>,
                  \<lparr>UserID = ID u, Claims_Email = Email u, Claims_Name = Name u,
                   Claims_Roles = map Role_Name (slice (Roles u)), Issuer = ''um-api'',
                   ExpiresAt = Some (NewNumericDate t2 + 7 * 24 * Hour),
                   NotBefore = Some (NewNumericDate t2), IssuedAt = Some (NewNumericDate t2)\<rparr>))\<rparr>"
  unfolding GenerateTokenPair_eq trunc_15 trunc_7d by (rule refl)

text \<open>
  C5, as stated, fails in its last part: \<open>ValidateToken\<close> wraps the error of the
  jwt package, and the wrapped error differs from case to case. At the time of \<open>W0\<close>
  a token that is correctly signed and expired is refused with \<open>ErrTokenExpired\<close>
  among its invalid claims, a token with a signature that is not the MAC with
  \<open>ErrTokenSignatureInvalid\<close>: the caller of \<open>ValidateToken\<close> can tell expired from
  tampered.
\<close>

theorem validate_errors_differ_counterexample:
  "ValidateToken L0 J0 (now W0) expired_token =
     Inl (FailedToParseToken (ErrTokenInvalidClaims [ErrTokenExpired])) \<and>
   ValidateToken L0 J0 (now W0) forged_token =
     Inl (FailedToParseToken ErrTokenSignatureInvalid) \<and>
   ValidateToken L0 J0 (now W0) expired_token \<noteq> ValidateToken L0 J0 (now W0) forged_token"
  by (simp add: ValidateToken_cause Validate_def instance_defs)

text \<open>
  C5, amended. A token whose header does not declare HS256, whose signature is not the MAC
  of its header and claims under the stored secret, whose expiry is not after the clock
  reading, or whose not-before is after it, is refused by \<open>ValidateToken\<close> with an error
  and never with claims. The error wraps the cause: unverifiable for the algorithm, invalid
  signature for the signature, and otherwise the invalid claims, which name the expiry or
  the not-before. The two callers drop the cause and answer every case with one fixed
  response: \<open>AuthMiddleware\<close> with 401 and \<open>Invalid or expired token\<close>,
  \<open>RefreshHandler\<close> with 401 and \<open>Invalid refresh token\<close>.
\<close>

theorem validate_rejects_with_cause:
  assumes "Header_alg h \<noteq> Some ''HS256'' \<or> sig \<noteq> HMAC_SHA256 L (secretKey js) (h, c) \<or>
           (\<exists>e. ExpiresAt c = Some e \<and> e \<le> now w) \<or> (\<exists>n. NotBefore c = Some n \<and> now w < n)"
  shows "ValidateToken L js (now w) (Compact h c sig) =
           Inl (FailedToParseToken
                  (if Header_alg h \<noteq> Some ''HS256'' then ErrTokenUnverifiable
                   else if sig \<noteq> HMAC_SHA256 L (secretKey js) (h, c) then ErrTokenSignatureInvalid
                   else ErrTokenInvalidClaims (Validate (now w) c))) \<and>
         ((\<exists>e. ExpiresAt c = Some e \<and> e \<le> now w) \<longrightarrow> ErrTokenExpired \<in> set (Validate (now w) c)) \<and>
         ((\<exists>n. NotBefore c = Some n \<and> now w < n) \<longrightarrow>
            ErrTokenNotValidYet \<in> set (Validate (now w) c)) \<and>
         fst (AuthMiddleware L js (ctx\<lparr>Authorization := BearerToken (Compact h c sig)\<rparr>) w) =
           Abort (JSON StatusUnauthorized (ErrorResponse ''Invalid or expired token'')) \<and>
         fst (RefreshHandler L \<lparr>jwtService = js\<rparr>
                (Some \<lparr>refresh_RefreshToken = Compact h c sig\<rparr>) ctx w) =
           JSON StatusUnauthorized (ErrorResponse ''Invalid refresh token'')"
proof -
  have v: "Validate (now w) c \<noteq> []"
    if "Header_alg h = Some ''HS256''" "sig = HMAC_SHA256 L (secretKey js) (h, c)"
    using assms that by (auto simp: Validate_Nil_iff)
  then have j: "ValidateToken L js (now w) (Compact h c sig) =
      Inl (FailedToParseToken
             (if Header_alg h \<noteq> Some ''HS256'' then ErrTokenUnverifiable
              else if sig \<noteq> HMAC_SHA256 L (secretKey js) (h, c) then ErrTokenSignatureInvalid
              else ErrTokenInvalidClaims (Validate (now w) c)))"
    by (simp add: ValidateToken_cause)
  have e: "ErrTokenExpired \<in> set (Validate (now w) c)"
    if "\<exists>e. ExpiresAt c = Some e \<and> e \<le> now w"
  proof -
    from that obtain x where "ExpiresAt c = Some x" "x \<le> now w" by blast
    then show ?thesis by (simp add: Validate_def)
  qed
  have n: "ErrTokenNotValidYet \<in> set (Validate (now w) c)"
    if "\<exists>n. NotBefore c = Some n \<and> now w < n"
  proof -
    from that obtain x where "NotBefore c = Some x" "now w < x" by blast
    then show ?thesis by (simp add: Validate_def)
  qed
  have "bearer_token (ctx\<lparr>Authorization := BearerToken (Compact h c sig)\<rparr>) = Inr (Compact h c sig)"
    by (simp add: bearer_token_def)
  from AuthMiddleware_rejected [OF this j]
    RefreshHandler_rejected [of L "\<lparr>jwtService = js\<rparr>" w "\<lparr>refresh_RefreshToken = Compact h c sig\<rparr>"] j e n
  show ?thesis by simp
qed

theorem validate_rejects_with_cause_witness:
  "Header_alg none_header \<noteq> Some ''HS256'' \<and>
   ValidateToken L0 J0 (now W0) (Compact none_header old_claims []) =
     Inl (FailedToParseToken ErrTokenUnverifiable) \<and>
   fst (AuthMiddleware L0 J0
          ((request_of ann ''1'')\<lparr>Authorization := BearerToken (Compact none_header old_claims [])\<rparr>) W0) =
     Abort (JSON StatusUnauthorized (ErrorResponse ''Invalid or expired token'')) \<and>
   (\<exists>e. ExpiresAt old_claims = Some e \<and> e \<le> now W0) \<and>
   ValidateToken L0 J0 (now W0)
     (Compact HS256_header old_claims (HMAC_SHA256 L0 (secretKey J0) (HS256_header, old_claims))) =
     Inl (FailedToParseToken (ErrTokenInvalidClaims [ErrTokenExpired])) \<and>
   fst (AuthMiddleware L0 J0
          ((request_of ann ''1'')\<lparr>Authorization := BearerToken
              (Compact HS256_header old_claims
                 (HMAC_SHA256 L0 (secretKey J0) (HS256_header, old_claims)))\<rparr>) W0) =
     Abort (JSON StatusUnauthorized (ErrorResponse ''Invalid or expired token'')) \<and>
   fst (RefreshHandler L0 \<lparr>jwtService = J0\<rparr>
          (Some \<lparr>refresh_RefreshToken = Compact HS256_header old_claims
                 (HMAC_SHA256 L0 (secretKey J0) (HS256_header, old_claims))\<rparr>)
          (request_of ann ''1'') W0) =
     JSON StatusUnauthorized (ErrorResponse ''Invalid refresh token'')"
proof -
  have a: "Header_alg none_header \<noteq> Some ''HS256''"
    by (simp add: none_header_def)
  have h: "Header_alg HS256_header = Some ''HS256''"
    by (simp add: HS256_header_def)
  have e: "\<exists>e. ExpiresAt old_claims = Some e \<and> e \<le> now W0"
    by (simp add: old_claims_def W0_def)
  have l: "Validate (now W0) old_claims = [ErrTokenExpired]"
    by (simp add: Validate_def old_claims_def W0_def)
  from a have 1: "Header_alg none_header \<noteq> Some ''HS256'' \<or>
      [] \<noteq> HMAC_SHA256 L0 (secretKey J0) (none_header, old_claims) \<or>
      (\<exists>e. ExpiresAt old_claims = Some e \<and> e \<le> now W0) \<or>
      (\<exists>n. NotBefore old_claims = Some n \<and> now W0 < n)" by blast
  from e have 2: "Header_alg HS256_header \<noteq> Some ''HS256'' \<or>
      HMAC_SHA256 L0 (secretKey J0) (HS256_header, old_claims)
        \<noteq> HMAC_SHA256 L0 (secretKey J0) (HS256_header, old_claims) \<or>
      (\<exists>e. ExpiresAt old_claims = Some e \<and> e \<le> now W0) \<or>
      (\<exists>n. NotBefore old_claims = Some n \<and> now W0 < n)" by blast
  from validate_rejects_with_cause [OF 1, of "request_of ann ''1''"] a
  have n: "ValidateToken L0 J0 (now W0) (Compact none_header old_claims []) =
       Inl (FailedToParseToken ErrTokenUnverifiable) \<and>
     fst (AuthMiddleware L0 J0
          ((request_of ann ''1'')\<lparr>Authorization := BearerToken (Compact none_header old_claims [])\<rparr>) W0) =
       Abort (JSON StatusUnauthorized (ErrorResponse ''Invalid or expired token''))"
    by simp
  from validate_rejects_with_cause [OF 2, of "request_of ann ''1''"] h l
  have x: "ValidateToken L0 J0 (now W0)
       (Compact HS256_header old_claims (HMAC_SHA256 L0 (secretKey J0) (HS256_header, old_claims))) =
       Inl (FailedToParseToken (ErrTokenInvalidClaims [ErrTokenExpired])) \<and>
     fst (AuthMiddleware L0 J0
          ((request_of ann ''1'')\<lparr>Authorization := BearerToken
              (Compact HS256_header old_claims
                 (HMAC_SHA256 L0 (secretKey J0) (HS256_header, old_claims)))\<rparr>) W0) =
       Abort (JSON StatusUnauthorized (ErrorResponse ''Invalid or expired token'')) \<and>
     fst (RefreshHandler L0 \<lparr>jwtService = J0\<rparr>
          (Some \<lparr>refresh_RefreshToken = Compact HS256_header old_claims
                 (HMAC_SHA256 L0 (secretKey J0) (HS256_header, old_claims))\<rparr>)
          (request_of ann ''1'') W0) =
       JSON StatusUnauthorized (ErrorResponse ''Invalid refresh token'')"
    by simp
  from a e n x show ?thesis by blast
qed

text \<open>
  C4. With the identity \<open>u\<close> attached to the context, \<open>RoleMiddleware\<close> lets the
  request pass exactly when a role name of \<open>u\<close> equals one of the allowed roles, and
  answers 403 exactly when none does. For the allowed set \<open>admin\<close>: an identity whose
  role names are exactly \<open>user\<close> is refused, one that has \<open>admin\<close> among its role
  names passes.
\<close>

theorem role_gate:
  assumes "Keys c ''user'' = Some (UserPtr u)"
  shows "(RoleMiddleware allowedRoles c = Next c \<longleftrightarrow>
            set (map Role_Name (slice (Roles u))) \<inter> set allowedRoles \<noteq> {}) \<and>
         (RoleMiddleware allowedRoles c =
            Abort (JSON StatusForbidden (ErrorResponse ''Insufficient permissions'')) \<longleftrightarrow>
            set (map Role_Name (slice (Roles u))) \<inter> set allowedRoles = {}) \<and>
         (set (map Role_Name (slice (Roles u))) = {''user''} \<longrightarrow>
            RoleMiddleware [''admin''] c =
              Abort (JSON StatusForbidden (ErrorResponse ''Insufficient permissions''))) \<and>
         (''admin'' \<in> set (map Role_Name (slice (Roles u))) \<longrightarrow> RoleMiddleware [''admin''] c = Next c)"
  using assms by (auto simp: RoleMiddleware_def hasRole_iff)

theorem role_gate_witness:
  "Keys (loaded bob ''5'') ''user'' = Some (UserPtr bob) \<and>
   set (map Role_Name (slice (Roles bob))) = {''user''} \<and>
   RoleMiddleware [''admin''] (loaded bob ''5'') =
     Abort (JSON StatusForbidden (ErrorResponse ''Insufficient permissions'')) \<and>
   Keys (loaded ann ''5'') ''user'' = Some (UserPtr ann) \<and>
   ''admin'' \<in> set (map Role_Name (slice (Roles ann))) \<and>
   RoleMiddleware [''admin''] (loaded ann ''5'') = Next (loaded ann ''5'')"
proof -
  have b: "Keys (loaded bob ''5'') ''user'' = Some (UserPtr bob)"
    by (simp add: loaded_def)
  have a: "Keys (loaded ann ''5'') ''user'' = Some (UserPtr ann)"
    by (simp add: loaded_def)
  have rb: "set (map Role_Name (slice (Roles bob))) = {''user''}"
    by (simp add: bob_def role_user_def slice_def)
  have ra: "''admin'' \<in> set (map Role_Name (slice (Roles ann)))"
    by (simp add: ann_def role_admin_def slice_def)
  from role_gate [OF b, of "[''admin'']"] role_gate [OF a, of "[''admin'']"] a b ra rb
  show ?thesis by blast
qed

text \<open>
  C6. Let the header carry a token that \<open>ValidateToken\<close> accepts at the clock reading
  of \<open>AuthMiddleware\<close>. If the database fails on the lookup, the middleware answers
  500 with \<open>Database error\<close>. If it does not fail and every row with the subject id is
  soft-deleted (in particular when there is no such row), the middleware answers 401 with
  \<open>User not found\<close>, the same response in both cases. So it does in the state left
  by a successful \<open>DeleteUserHandler\<close> for that subject id.
\<close>

theorem load_identity_failures:
  assumes "bearer_token c = Inr tok" and "ValidateToken L js (now w) tok = Inr claims"
  shows "(fst (next_fault w) \<longrightarrow>
            fst (AuthMiddleware L js c w) =
              Abort (JSON StatusInternalServerError (ErrorResponse ''Database error''))) \<and>
         (\<not> fst (next_fault w) \<and>
            list_all (\<lambda>u. ID u = UserID claims \<longrightarrow> DeletedAt u \<noteq> None) (users w) \<longrightarrow>
            fst (AuthMiddleware L js c w) =
              Abort (JSON StatusUnauthorized (ErrorResponse ''User not found''))) \<and>
         (\<not> fst (next_fault w) \<and> w = snd (DeleteUserHandler cd w0) \<and>
            status (fst (DeleteUserHandler cd w0)) = StatusOK \<and>
            Atoi (Param_id cd) = Some (int (UserID claims)) \<longrightarrow>
            fst (AuthMiddleware L js c w) =
              Abort (JSON StatusUnauthorized (ErrorResponse ''User not found'')))"
proof (intro conjI impI)
  assume "fst (next_fault w)"
  then have "fst (First_id True (UserID claims) (snd (time_Now w))) = Inl ErrDatabase"
    by (simp add: First_id_fault)
  then show "fst (AuthMiddleware L js c w) =
      Abort (JSON StatusInternalServerError (ErrorResponse ''Database error''))"
    by (simp add: AuthMiddleware_validated [OF assms])
next
  assume "\<not> fst (next_fault w) \<and>
      list_all (\<lambda>u. ID u = UserID claims \<longrightarrow> DeletedAt u \<noteq> None) (users w)"
  then have "fst (First_id True (UserID claims) (snd (time_Now w))) = Inl ErrRecordNotFound"
    by (simp add: First_id_missing)
  then show "fst (AuthMiddleware L js c w) =
      Abort (JSON StatusUnauthorized (ErrorResponse ''User not found''))"
    by (simp add: AuthMiddleware_validated [OF assms])
next
  assume a: "\<not> fst (next_fault w) \<and> w = snd (DeleteUserHandler cd w0) \<and>
      status (fst (DeleteUserHandler cd w0)) = StatusOK \<and>
      Atoi (Param_id cd) = Some (int (UserID claims))"
  then have w: "w = snd (DeleteUserHandler cd w0)" and nf: "\<not> fst (next_fault w)"
    and ok: "status (fst (DeleteUserHandler cd w0)) = StatusOK"
    and at: "Atoi (Param_id cd) = Some (int (UserID claims))"
    by blast+
  have la: "list_all (\<lambda>u. ID u = UserID claims \<longrightarrow> DeletedAt u \<noteq> None) (users w)"
    unfolding w by (rule DeleteUserHandler_OK [OF ok at])
  have "fst (First_id True (UserID claims) (snd (time_Now w))) = Inl ErrRecordNotFound"
    using nf la by (intro First_id_missing) simp_all
  then show "fst (AuthMiddleware L js c w) =
      Abort (JSON StatusUnauthorized (ErrorResponse ''User not found''))"
    by (simp add: AuthMiddleware_validated [OF assms])
qed

theorem load_identity_failures_witness:
  "bearer_token (request_of bob ''5'') = Inr (token_of bob) \<and>
   (\<exists>c. ValidateToken L0 J0 (now W0) (token_of bob) = Inr c \<and> UserID c = 5) \<and>
   fst (next_fault (W0\<lparr>faults := [True]\<rparr>)) \<and>
   fst (AuthMiddleware L0 J0 (request_of bob ''5'') (W0\<lparr>faults := [True]\<rparr>)) =
     Abort (JSON StatusInternalServerError (ErrorResponse ''Database error'')) \<and>
   \<not> fst (next_fault (snd (DeleteUserHandler (loaded ann ''5'') W0))) \<and>
   status (fst (DeleteUserHandler (loaded ann ''5'') W0)) = StatusOK \<and>
   Atoi (Param_id (loaded ann ''5'')) = Some 5 \<and>
   fst (AuthMiddleware L0 J0 (request_of bob ''5'') (snd (DeleteUserHandler (loaded ann ''5'') W0))) =
     Abort (JSON StatusUnauthorized (ErrorResponse ''User not found'')) \<and>
   bearer_token (request_of dan ''7'') = Inr (token_of dan) \<and>
   (\<exists>c. ValidateToken L0 J0 (now W0) (token_of dan) = Inr c \<and> UserID c = 7) \<and>
   \<not> fst (next_fault W0) \<and>
   list_all (\<lambda>u. ID u = 7 \<longrightarrow> DeletedAt u \<noteq> None) (users W0) \<and>
   fst (AuthMiddleware L0 J0 (request_of dan ''7'') W0) =
     Abort (JSON StatusUnauthorized (ErrorResponse ''User not found''))"
proof -
  let ?W1 = "snd (DeleteUserHandler (loaded ann ''5'') W0)"
  have btd: "bearer_token (request_of dan ''7'') = Inr (token_of dan)"
    by (simp add: bearer_token_def request_of_def)
  from issue_then_validate [of L0 J0 dan "now W0" "now W0"] obtain cd where
    vd: "ValidateToken L0 J0 (now W0) (token_of dan) = Inr cd" and "UserID cd = ID dan"
    by (auto simp: pair_at_eq token_of_def)
  then have i7: "UserID cd = 7" by (simp add: dan_def row_def)
  have nf0: "\<not> fst (next_fault W0)"
    by (simp add: next_fault_def W0_def)
  have la: "list_all (\<lambda>u. ID u = 7 \<longrightarrow> DeletedAt u \<noteq> None) (users W0)"
    by (simp add: W0_def row_def)
  from load_identity_failures [OF btd vd] nf0 la i7
  have d: "fst (AuthMiddleware L0 J0 (request_of dan ''7'') W0) =
     Abort (JSON StatusUnauthorized (ErrorResponse ''User not found''))"
    by simp
  have bt: "bearer_token (request_of bob ''5'') = Inr (token_of bob)"
    by (simp add: bearer_token_def request_of_def)
  from issue_then_validate [of L0 J0 bob "now W0" "now W0"] obtain c where
    v: "ValidateToken L0 J0 (now W0) (token_of bob) = Inr c" and i: "UserID c = ID bob"
    by (auto simp: pair_at_eq token_of_def)
  have i5: "UserID c = 5" using i by (simp add: bob_def row_def)
  have f: "fst (next_fault (W0\<lparr>faults := [True]\<rparr>))"
    by (simp add: next_fault_def)
  have n0: "now (W0\<lparr>faults := [True]\<rparr>) = now W0" by simp
  have del: "DeleteUserHandler (loaded ann ''5'') W0 =
      (JSON StatusOK (SuccessResponse (Data_Message ''User deleted successfully'')),
       W0\<lparr>users := [row 1 ''a@x.com'' ''Ann'' None, row 5 ''b@x.com'' ''Bob'' (Some (now W0)),
                     row 7 ''d@x.com'' ''Dan'' (Some 1699999999000000000),
                     row 53 ''c@x.com'' ''Cy'' None]\<rparr>)"
    by (simp add: DeleteUserHandler_def gorm_defs instance_defs)
  have n1: "now ?W1 = now W0" by (simp add: del)
  have nf: "\<not> fst (next_fault ?W1)" unfolding del by (simp add: next_fault_def W0_def)
  have ok: "status (fst (DeleteUserHandler (loaded ann ''5'') W0)) = StatusOK" by (simp add: del)
  have at: "Atoi (Param_id (loaded ann ''5'')) = Some 5"
    by (simp add: loaded_def request_of_def Atoi_def digit_def)
  have at': "Atoi (Param_id (loaded ann ''5'')) = Some (int (UserID c))"
    using at i5 by simp
  note T0 = load_identity_failures [OF bt, of L0 J0 "W0\<lparr>faults := [True]\<rparr>" c, unfolded n0, OF v]
  note T1 = load_identity_failures [OF bt, of L0 J0 ?W1 c "loaded ann ''5''" W0, unfolded n1, OF v]
  from T0 f have a: "fst (AuthMiddleware L0 J0 (request_of bob ''5'') (W0\<lparr>faults := [True]\<rparr>)) =
     Abort (JSON StatusInternalServerError (ErrorResponse ''Database error''))" by blast
  from T1 nf ok at' have b: "fst (AuthMiddleware L0 J0 (request_of bob ''5'') ?W1) =
     Abort (JSON StatusUnauthorized (ErrorResponse ''User not found''))" by blast
  from bt v i5 f a nf ok at b btd vd i7 nf0 la d show ?thesis by blast
qed

text \<open>
  C1, as stated, fails: the route \<^verbatim>\<open>PUT /users/:id\<close> is registered in the group
  that runs \<^verbatim>\<open>RoleMiddleware("admin")\<close>, so identity 5, which holds only the role
  \<open>user\<close>, is refused the update of its own record 5.
\<close>

theorem update_by_non_admin_counterexample:
  "fst (PUT_users_id L0 J0 (Some (rename ''Bobby'')) (request_of bob ''5'') W0) =
     JSON StatusForbidden (ErrorResponse ''Insufficient permissions'')"
  by (simp add: PUT_users_id_def http_defs token_defs gorm_defs instance_defs)

text \<open>
  C1, amended. For an authenticated request to \<^verbatim>\<open>PUT /users/:id\<close>: a caller whose
  role names do not include \<open>admin\<close> is refused with 403, whichever record it names,
  its own included; for a caller whose role names include \<open>admin\<close> the request reaches
  \<open>UpdateUserHandler\<close>, which never answers such a caller with 403.
\<close>

theorem update_route_gate:
  assumes "AuthMiddleware L js c w = (Next c1, w1)"
  shows "\<exists>u. Keys c1 ''user'' = Some (UserPtr u) \<and>
           (''admin'' \<notin> set (map Role_Name (slice (Roles u))) \<longrightarrow>
              PUT_users_id L js body c w =
                (JSON StatusForbidden (ErrorResponse ''Insufficient permissions''), w1)) \<and>
           (''admin'' \<in> set (map Role_Name (slice (Roles u))) \<longrightarrow>
              PUT_users_id L js body c w = UpdateUserHandler body c1 w1 \<and>
              status (fst (UpdateUserHandler body c1 w1)) \<noteq> StatusForbidden)"
proof -
  from AuthMiddleware_Next [OF assms] obtain u where u: "Keys c1 ''user'' = Some (UserPtr u)"
    by auto
  have r: "PUT_users_id L js body c w =
      (case RoleMiddleware [''admin''] c1 of
         Abort r \<Rightarrow> (r, w1) | Next c2 \<Rightarrow> UpdateUserHandler body c2 w1)"
    by (simp add: PUT_users_id_def users_group_def protectedAPI_def assms)
  have "''admin'' \<notin> set (map Role_Name (slice (Roles u))) \<Longrightarrow>
      PUT_users_id L js body c w =
        (JSON StatusForbidden (ErrorResponse ''Insufficient permissions''), w1)"
    using u by (simp add: r RoleMiddleware_def hasRole_iff)
  moreover have "''admin'' \<in> set (map Role_Name (slice (Roles u))) \<Longrightarrow>
      PUT_users_id L js body c w = UpdateUserHandler body c1 w1"
    using u by (simp add: r RoleMiddleware_def hasRole_iff)
  ultimately show ?thesis
    using u UpdateUserHandler_admin [OF u] by blast
qed


theorem update_route_gate_witness:
  "(\<exists>c1. AuthMiddleware L0 J0 (request_of bob ''5'') W0 = (Next c1, W0)) \<and>
   ''admin'' \<notin> set (map Role_Name (slice (Roles bob))) \<and>
   PUT_users_id L0 J0 (Some (rename ''Bobby'')) (request_of bob ''5'') W0 =
     (JSON StatusForbidden (ErrorResponse ''Insufficient permissions''), W0) \<and>
   (\<exists>c1. AuthMiddleware L0 J0 (request_of ann ''5'') W0 = (Next c1, W0)) \<and>
   ''admin'' \<in> set (map Role_Name (slice (Roles ann))) \<and>
   status (fst (PUT_users_id L0 J0 (Some (rename ''Bobby'')) (request_of ann ''5'') W0))
     \<noteq> StatusForbidden"
proof -
  obtain cb where cb: "AuthMiddleware L0 J0 (request_of bob ''5'') W0 = (Next cb, W0)"
    and kb: "Keys cb ''user'' = Some (UserPtr bob)"
    by (simp add: http_defs token_defs gorm_defs instance_defs)
  obtain ca where ca: "AuthMiddleware L0 J0 (request_of ann ''5'') W0 = (Next ca, W0)"
    and ka: "Keys ca ''user'' = Some (UserPtr ann)"
    by (simp add: http_defs token_defs gorm_defs instance_defs)
  have rb: "''admin'' \<notin> set (map Role_Name (slice (Roles bob)))"
    by (simp add: bob_def role_user_def slice_def)
  have ra: "''admin'' \<in> set (map Role_Name (slice (Roles ann)))"
    by (simp add: ann_def role_admin_def slice_def)
  from update_route_gate [OF cb, of "Some (rename ''Bobby'')"] kb rb
  have b: "PUT_users_id L0 J0 (Some (rename ''Bobby'')) (request_of bob ''5'') W0 =
     (JSON StatusForbidden (ErrorResponse ''Insufficient permissions''), W0)"
    by auto
  from update_route_gate [OF ca, of "Some (rename ''Bobby'')"] ka ra
  have a: "status (fst (PUT_users_id L0 J0 (Some (rename ''Bobby'')) (request_of ann ''5'') W0))
     \<noteq> StatusForbidden"
    by auto
  from cb ca rb ra a b show ?thesis by blast
qed




text \<open>
  C8. When the identity loaded for the path parameter holds a role with the requested name
  (trimmed and lowered, not empty), \<open>AssignRoleHandler\<close> answers 400 with
  \<open>User already has this role\<close>; when it holds no role with the requested name,
  \<open>RemoveRoleHandler\<close> answers 400 with \<open>User doesn't have this role\<close>; when a
  live identity has the email of a registration, \<open>RegisterHandler\<close> answers 400 with
  \<open>User already exists\<close>. In each case the three tables, and so every role set, are
  left as they were. The statements the handler runs are assumed not to fail in the
  database, and role names are unique in the roles table.
\<close>

theorem conflicts_are_bad_requests:
  "(First_param True (Param_id c) w = (Inr user, w1) \<and> \<not> fst (next_fault w1) \<and>
    distinct (map Role_Name (roles w)) \<and>
    ToLower L (TrimSpace L (assign_RoleName areq)) \<noteq> [] \<and>
    ToLower L (TrimSpace L (assign_RoleName areq)) \<in> set (map Role_Name (slice (Roles user))) \<longrightarrow>
      fst (AssignRoleHandler L (Some areq) c w) =
        JSON StatusBadRequest (ErrorResponse ''User already has this role'') \<and>
      users (snd (AssignRoleHandler L (Some areq) c w)) = users w \<and>
      roles (snd (AssignRoleHandler L (Some areq) c w)) = roles w \<and>
      user_roles (snd (AssignRoleHandler L (Some areq) c w)) = user_roles w) \<and>
   (First_param True (Param_id c) w = (Inr user, w1) \<and>
    ToLower L (TrimSpace L (remove_RoleName rreq)) \<notin> set (map Role_Name (slice (Roles user))) \<longrightarrow>
      fst (RemoveRoleHandler L (Some rreq) c w) =
        JSON StatusBadRequest (ErrorResponse ''User doesn't have this role'') \<and>
      users (snd (RemoveRoleHandler L (Some rreq) c w)) = users w \<and>
      roles (snd (RemoveRoleHandler L (Some rreq) c w)) = roles w \<and>
      user_roles (snd (RemoveRoleHandler L (Some rreq) c w)) = user_roles w) \<and>
   (\<not> fst (next_fault w) \<and>
    list_ex (\<lambda>u. Email u = reg_Email req \<and> DeletedAt u = None) (users w) \<longrightarrow>
      fst (RegisterHandler L ah (Some req) c w) =
        JSON StatusBadRequest (ErrorResponse ''User already exists'') \<and>
      users (snd (RegisterHandler L ah (Some req) c w)) = users w \<and>
      roles (snd (RegisterHandler L ah (Some req) c w)) = roles w \<and>
      user_roles (snd (RegisterHandler L ah (Some req) c w)) = user_roles w)"
proof (intro conjI impI)
  assume a: "First_param True (Param_id c) w = (Inr user, w1) \<and> \<not> fst (next_fault w1) \<and>
    distinct (map Role_Name (roles w)) \<and>
    ToLower L (TrimSpace L (assign_RoleName areq)) \<noteq> [] \<and>
    ToLower L (TrimSpace L (assign_RoleName areq)) \<in> set (map Role_Name (slice (Roles user)))"
  then have e: "AssignRoleHandler L (Some areq) c w =
      (JSON StatusBadRequest (ErrorResponse ''User already has this role''), snd (next_fault w1))"
    by (intro AssignRoleHandler_conflict [where user = user and ?w1.0 = w1]) auto
  from a have t: "users w1 = users w \<and> roles w1 = roles w \<and> user_roles w1 = user_roles w"
    by (intro snd_First_param_tables [where r = "Inr user"]) auto
  show "fst (AssignRoleHandler L (Some areq) c w) =
      JSON StatusBadRequest (ErrorResponse ''User already has this role'')"
    by (simp add: e)
  show "users (snd (AssignRoleHandler L (Some areq) c w)) = users w"
    by (simp add: e t)
  show "roles (snd (AssignRoleHandler L (Some areq) c w)) = roles w"
    by (simp add: e t)
  show "user_roles (snd (AssignRoleHandler L (Some areq) c w)) = user_roles w"
    by (simp add: e t)
next
  assume a: "First_param True (Param_id c) w = (Inr user, w1) \<and>
    ToLower L (TrimSpace L (remove_RoleName rreq)) \<notin> set (map Role_Name (slice (Roles user)))"
  then have e: "RemoveRoleHandler L (Some rreq) c w =
      (JSON StatusBadRequest (ErrorResponse ''User doesn't have this role''), w1)"
    by (intro RemoveRoleHandler_conflict [where user = user]) auto
  from a have t: "users w1 = users w \<and> roles w1 = roles w \<and> user_roles w1 = user_roles w"
    by (intro snd_First_param_tables [where r = "Inr user"]) auto
  show "fst (RemoveRoleHandler L (Some rreq) c w) =
      JSON StatusBadRequest (ErrorResponse ''User doesn't have this role'')"
    by (simp add: e)
  show "users (snd (RemoveRoleHandler L (Some rreq) c w)) = users w"
    by (simp add: e t)
  show "roles (snd (RemoveRoleHandler L (Some rreq) c w)) = roles w"
    by (simp add: e t)
  show "user_roles (snd (RemoveRoleHandler L (Some rreq) c w)) = user_roles w"
    by (simp add: e t)
next
  assume a: "\<not> fst (next_fault w) \<and>
    list_ex (\<lambda>u. Email u = reg_Email req \<and> DeletedAt u = None) (users w)"
  then have e: "RegisterHandler L ah (Some req) c w =
      (JSON StatusBadRequest (ErrorResponse ''User already exists''), snd (next_fault w))"
    by (intro RegisterHandler_conflict) auto
  show "fst (RegisterHandler L ah (Some req) c w) =
      JSON StatusBadRequest (ErrorResponse ''User already exists'')"
    by (simp add: e)
  show "users (snd (RegisterHandler L ah (Some req) c w)) = users w"
    by (simp add: e)
  show "roles (snd (RegisterHandler L ah (Some req) c w)) = roles w"
    by (simp add: e)
  show "user_roles (snd (RegisterHandler L ah (Some req) c w)) = user_roles w"
    by (simp add: e)
qed


theorem conflicts_are_bad_requests_witness:
  "First_param True (Param_id (loaded ann ''5'')) W0 = (Inr bob, W0) \<and>
   ToLower L0 (TrimSpace L0 (assign_RoleName \<lparr>assign_RoleName = '' User ''\<rparr>)) = ''user'' \<and>
   ''user'' \<in> set (map Role_Name (slice (Roles bob))) \<and>
   fst (AssignRoleHandler L0 (Some \<lparr>assign_RoleName = '' User ''\<rparr>) (loaded ann ''5'') W0) =
     JSON StatusBadRequest (ErrorResponse ''User already has this role'') \<and>
   user_roles (snd (AssignRoleHandler L0 (Some \<lparr>assign_RoleName = '' User ''\<rparr>) (loaded ann ''5'') W0)) =
     user_roles W0 \<and>
   ToLower L0 (TrimSpace L0 (remove_RoleName \<lparr>remove_RoleName = ''Admin''\<rparr>)) = ''admin'' \<and>
   ''admin'' \<notin> set (map Role_Name (slice (Roles bob))) \<and>
   fst (RemoveRoleHandler L0 (Some \<lparr>remove_RoleName = ''Admin''\<rparr>) (loaded ann ''5'') W0) =
     JSON StatusBadRequest (ErrorResponse ''User doesn't have this role'') \<and>
   user_roles (snd (RemoveRoleHandler L0 (Some \<lparr>remove_RoleName = ''Admin''\<rparr>) (loaded ann ''5'') W0)) =
     user_roles W0 \<and>
   list_ex (\<lambda>u. Email u = ''b@x.com'' \<and> DeletedAt u = None) (users W0) \<and>
   fst (RegisterHandler L0 \<lparr>jwtService = J0\<rparr>
          (Some \<lparr>reg_Email = ''b@x.com'', reg_Password = ''pass1234'', reg_Name = ''Bo'',
                 reg_Tel = [], reg_Age = 0, reg_Gender = [], reg_Address = [], reg_City = [],
                 reg_Country = []\<rparr>) (loaded ann ''5'') W0) =
     JSON StatusBadRequest (ErrorResponse ''User already exists'')"
proof -
  let ?areq = "\<lparr>assign_RoleName = '' User ''\<rparr>"
  let ?rreq = "\<lparr>remove_RoleName = ''Admin''\<rparr>"
  let ?req = "\<lparr>reg_Email = ''b@x.com'', reg_Password = ''pass1234'', reg_Name = ''Bo'',
                 reg_Tel = [], reg_Age = 0, reg_Gender = [], reg_Address = [], reg_City = [],
                 reg_Country = []\<rparr>"
  have fp: "First_param True (Param_id (loaded ann ''5'')) W0 = (Inr bob, W0)"
    by (simp add: gorm_defs instance_defs)
  have nf: "\<not> fst (next_fault W0)"
    by (simp add: next_fault_def W0_def)
  have d: "distinct (map Role_Name (roles W0))"
    by (simp add: W0_def role_user_def role_admin_def)
  have na: "ToLower L0 (TrimSpace L0 (assign_RoleName ?areq)) = ''user''"
    by (simp add: L0_def ascii_ToLower_def ascii_TrimSpace_def char_of_def bit_0)
  have nr: "ToLower L0 (TrimSpace L0 (remove_RoleName ?rreq)) = ''admin''"
    by (simp add: L0_def ascii_ToLower_def ascii_TrimSpace_def char_of_def bit_0)
  have hu: "''user'' \<in> set (map Role_Name (slice (Roles bob)))"
    by (simp add: bob_def role_user_def slice_def)
  have ha: "''admin'' \<notin> set (map Role_Name (slice (Roles bob)))"
    by (simp add: bob_def role_user_def slice_def)
  have em: "list_ex (\<lambda>u. Email u = ''b@x.com'' \<and> DeletedAt u = None) (users W0)"
    by (simp add: W0_def row_def)
  note T = conflicts_are_bad_requests [where c = "loaded ann ''5''" and w = W0 and user = bob
      and ?w1.0 = W0 and L = L0 and areq = ?areq and rreq = ?rreq and req = ?req
      and ah = "\<lparr>jwtService = J0\<rparr>"]
  from T fp nf d na hu have a:
    "fst (AssignRoleHandler L0 (Some ?areq) (loaded ann ''5'') W0) =
       JSON StatusBadRequest (ErrorResponse ''User already has this role'') \<and>
     user_roles (snd (AssignRoleHandler L0 (Some ?areq) (loaded ann ''5'') W0)) = user_roles W0"
    by simp
  from T fp nr ha have r:
    "fst (RemoveRoleHandler L0 (Some ?rreq) (loaded ann ''5'') W0) =
       JSON StatusBadRequest (ErrorResponse ''User doesn't have this role'') \<and>
     user_roles (snd (RemoveRoleHandler L0 (Some ?rreq) (loaded ann ''5'') W0)) = user_roles W0"
    by simp
  from T nf em have g:
    "fst (RegisterHandler L0 \<lparr>jwtService = J0\<rparr> (Some ?req) (loaded ann ''5'') W0) =
       JSON StatusBadRequest (ErrorResponse ''User already exists'')"
    by simp
  from fp na hu a nr ha r em g show ?thesis by blast
qed

text \<open>
  C9. The body written by each handler (registration, login, refresh, profile, user
  listing, user fetch, update, delete, role assignment, role removal), and by any response
  at all, has no member named \<open>password\<close> (nor \<open>Password\<close>) at any depth, and the
  serialisation of an identity does not depend on its password hash.
\<close>

theorem password_never_serialised:
  "''password'' \<notin> set (member_names (response_body (fst (RegisterHandler L ah reg c w)))) \<and>
   ''password'' \<notin> set (member_names (response_body (fst (LoginHandler L ah login c w)))) \<and>
   ''password'' \<notin> set (member_names (response_body (fst (RefreshHandler L ah refresh c w)))) \<and>
   ''password'' \<notin> set (member_names (response_body (fst (ProfileHandler c w)))) \<and>
   ''password'' \<notin> set (member_names (response_body (fst (GetAllUsersHandler c w)))) \<and>
   ''password'' \<notin> set (member_names (response_body (fst (GetUserByIDHandler c w)))) \<and>
   ''password'' \<notin> set (member_names (response_body (fst (UpdateUserHandler upd c w)))) \<and>
   ''password'' \<notin> set (member_names (response_body (fst (DeleteUserHandler c w)))) \<and>
   ''password'' \<notin> set (member_names (response_body (fst (AssignRoleHandler L assign c w)))) \<and>
   ''password'' \<notin> set (member_names (response_body (fst (RemoveRoleHandler L remove c w)))) \<and>
   ''password'' \<notin> set (member_names (response_body r)) \<and>
   ''Password'' \<notin> set (member_names (response_body r)) \<and>
   User_json (u\<lparr>Password := p\<rparr>) = User_json u"
  using no_password_member no_Password_member User_json_Password by blast

theorem password_never_serialised_witness:
  "status (fst (ProfileHandler (loaded bob ''5'') W0)) = StatusOK \<and>
   Password bob = ''$2a$pass1234'' \<and>
   ''password'' \<notin> set (member_names (response_body (fst (ProfileHandler (loaded bob ''5'') W0)))) \<and>
   User_json (bob\<lparr>Password := []\<rparr>) = User_json bob"
proof -
  have 1: "status (fst (ProfileHandler (loaded bob ''5'') W0)) = StatusOK"
    by (simp add: ProfileHandler_def loaded_def)
  have 2: "Password bob = ''$2a$pass1234''"
    by (simp add: bob_def row_def)
  from password_never_serialised [where c = "loaded bob ''5''" and w = W0 and u = bob and p = "[]"]
  have "''password'' \<notin> set (member_names (response_body (fst (ProfileHandler (loaded bob ''5'') W0)))) \<and>
   User_json (bob\<lparr>Password := []\<rparr>) = User_json bob"
    by blast
  with 1 2 show ?thesis by blast
qed


end
